theory Spec2Isabelle
  imports Complex_Main
begin

section \<open>Errors\<close>

text \<open>
  The exceptions the modelled code can raise, as values. A function that can raise
  returns \<open>py_error + 'a\<close>, with \<open>Inl\<close> for the exception.
\<close>

datatype py_error =
    UnknownSolverError
  | ImportError
  | IndexError
  | AssertionError
  | ArithmeticError
  | ValueError

section \<open>The pseudo-Boolean domain (borg/domains/pb/__init__.py)\<close>

text \<open>
  \<open>PseudoBooleanTask\<close> holds the path, the parsed instance and the cached linearized
  path. Of the parsed instance the domain reads \<open>objective\<close> (absent for a pure
  satisfiability instance) and \<open>nonlinear\<close>.
\<close>

record 'o opb_instance =
  objective :: "'o option"
  nonlinear :: bool

record 'o PseudoBooleanTask =
  path :: string
  opb :: "'o opb_instance"
  linearized_path :: "string option"

text \<open>
  An answer is \<open>None\<close> or a pair \<open>(description, certificate)\<close>.
  \<open>is_final\<close> of \<open>PseudoBooleanSatisfiability\<close>, lines 71-82.
\<close>

definition is_final :: "'o PseudoBooleanTask \<Rightarrow> (string \<times> 'c) option \<Rightarrow> bool" where
  "is_final task answer =
     (case answer of
        None \<Rightarrow> False
      | Some (description, _) \<Rightarrow>
          (if objective (opb task) = None
           then description \<in> set [''SATISFIABLE'', ''UNSATISFIABLE'']
           else description \<in> set [''OPTIMUM FOUND'', ''UNSATISFIABLE'']))"

section \<open>Attempts (borg/solvers/attempts.py)\<close>

text \<open>
  \<open>Attempt\<close>: the five members set by \<open>Attempt.__init__\<close> and read back by the
  properties of the same names.
\<close>

record ('s, 'b, 'c, 't, 'a) attempt =
  solver :: 's
  budget :: 'b
  cost :: 'c
  task :: 't
  answer :: "'a option"

text \<open>
  The names bound at the top level of the module \<open>borg.solvers.attempts\<close>: the three
  imported ones and the nine classes it defines, in the order of the file.
\<close>

definition attempts_module :: "string list" where
  "attempts_module =
     [''abstractproperty'', ''Rowed'', ''AbstractRowed'',
      ''AbstractAttempt'', ''AbstractRunAttempt'', ''AbstractPreprocessingAttempt'',
      ''Attempt'', ''WrappedAttempt'', ''RunAttempt'', ''WrappedRunAttempt'',
      ''PreprocessingAttempt'', ''WrappedPreprocessingAttempt'']"

text \<open>\<open>from module import name\<close>: an ImportError when the module binds no such name.\<close>

definition import_from :: "string list \<Rightarrow> string \<Rightarrow> py_error + string" where
  "import_from module_names n =
     (if n \<in> set module_names then Inr n else Inl ImportError)"

text \<open>
  A wrapped attempt: the class it was built from, the wrapping solver and the inner
  attempt (\<open>WrappedAttempt.__init__\<close> stores the last two).
\<close>

record ('s, 'i) wrapped_attempt =
  wrapper_class :: string
  wrapped_solver :: 's
  inner :: 'i

section \<open>The lookup indirection (borg/attic/solvers/lookup.py)\<close>

text \<open>
  A solver object is either the name-handle (\<open>LookupSolver\<close>, which holds only
  \<open>_name\<close>) or a concrete solver, identified by a value of type \<open>'i\<close>.
\<close>

datatype 'i solver_object = LookupSolver string | ConcreteSolver 'i

fun name :: "'i solver_object \<Rightarrow> string option" where
  "name (LookupSolver n) = Some n"
| "name (ConcreteSolver _) = None"

text \<open>
  A runnable solver of the registry: its identity, what its \<open>solve\<close> returns for a
  task, a budget and a random source, and what its \<open>preprocess\<close> does to the world
  (it writes the output path) and returns. Both are called with the environment they
  were found in; the record stands for the solver in that environment.
\<close>

record ('i, 't, 'b, 'r, 'c, 'a, 'w, 'p) runnable_solver =
  ident :: 'i
  solve_impl :: "'t \<Rightarrow> 'b \<Rightarrow> 'r \<Rightarrow> ('i solver_object, 'b, 'c, 't, 'a) attempt"
  preprocess_impl :: "'t \<Rightarrow> 'b \<Rightarrow> string \<Rightarrow> 'r \<Rightarrow> 'w \<Rightarrow> 'p \<times> 'w"

record 'rs environment =
  named_solvers :: "string \<rightharpoonup> 'rs"

text \<open>
  Modelled from the spec: the class of \<open>environment.named_solvers\<close> is not under src/.
  Section 6 of the spec gives its subscript: the registered solver when the name is
  present, failing with a lookup error when it is absent, which section 7 names
  \<open>UnknownSolverError\<close>.
\<close>

definition registry_getitem :: "('k \<rightharpoonup> 'v) \<Rightarrow> 'k \<Rightarrow> py_error + 'v" where
  "registry_getitem registry k =
     (case registry k of None \<Rightarrow> Inl UnknownSolverError | Some v \<Rightarrow> Inr v)"

text \<open>\<open>LookupSolver.look_up\<close>, lines 44-49.\<close>

definition look_up :: "string \<Rightarrow> 'rs environment \<Rightarrow> py_error + 'rs" where
  "look_up self_name env = registry_getitem (named_solvers env) self_name"

text \<open>
  Modelled from the spec: \<open>borg.RecycledAttempt\<close> is not under src/. It is called with
  the five arguments of \<open>Attempt.__init__\<close> in that order, and section 3 of the spec
  gives the attempt as the record of exactly these five fields.
\<close>

definition RecycledAttempt ::
  "'s \<Rightarrow> 'b \<Rightarrow> 'c \<Rightarrow> 't \<Rightarrow> 'a option \<Rightarrow> ('s, 'b, 'c, 't, 'a) attempt" where
  "RecycledAttempt s b c t a = \<lparr>solver = s, budget = b, cost = c, task = t, answer = a\<rparr>"

text \<open>\<open>LookupSolver.solve\<close>, lines 27-42.\<close>

definition solve ::
  "string \<Rightarrow> 't \<Rightarrow> 'b \<Rightarrow> 'r \<Rightarrow>
   ('i, 't, 'b, 'r, 'c, 'a, 'w, 'p) runnable_solver environment \<Rightarrow>
   py_error + ('i solver_object, 'b, 'c, 't, 'a) attempt" where
  "solve self_name tsk bud rnd env =
     (case look_up self_name env of
        Inl e \<Rightarrow> Inl e
      | Inr looked_up \<Rightarrow>
          (let inner_attempt = solve_impl looked_up tsk bud rnd
           in Inr (RecycledAttempt (LookupSolver self_name)
                     (budget inner_attempt) (cost inner_attempt)
                     (task inner_attempt) (answer inner_attempt))))"

text \<open>
  \<open>LookupPreprocessor.preprocess\<close>, lines 99-109. The import is the first statement
  of the body; the world \<open>w\<close> is what the resolved preprocessor's run changes.
\<close>

definition preprocess ::
  "string \<Rightarrow> 't \<Rightarrow> 'b \<Rightarrow> string \<Rightarrow> 'r \<Rightarrow>
   ('i, 't, 'b, 'r, 'c, 'a, 'w, 'p) runnable_solver environment \<Rightarrow> 'w \<Rightarrow>
   (py_error + ('i solver_object, 'p) wrapped_attempt) \<times> 'w" where
  "preprocess self_name tsk bud output_path rnd env w =
     (case import_from attempts_module ''WrappedPreprocessorAttempt'' of
        Inl e \<Rightarrow> (Inl e, w)
      | Inr cls \<Rightarrow>
          (case look_up self_name env of
             Inl e \<Rightarrow> (Inl e, w)
           | Inr looked_up \<Rightarrow>
               (let (inner_attempt, w') = preprocess_impl looked_up tsk bud output_path rnd w
                in (Inr \<lparr>wrapper_class = cls, wrapped_solver = LookupSolver self_name,
                          inner = inner_attempt\<rparr>, w'))))"

text \<open>A registry entry for the concrete scenarios below.\<close>

definition example_solver ::
  "(nat, string, real, nat, real, bool, nat, nat) runnable_solver" where
  "example_solver =
     \<lparr>ident = 7,
      solve_impl = (\<lambda>tsk bud rnd.
         \<lparr>solver = ConcreteSolver 7, budget = bud, cost = bud / 2, task = tsk,
          answer = Some True\<rparr>),
      preprocess_impl = (\<lambda>tsk bud output_path rnd w. (rnd, Suc w))\<rparr>"

section \<open>Floating-point arithmetic\<close>

subsection \<open>The arithmetic the portfolios use\<close>

text \<open>
  The portfolios compute with floats. What they use of them is gathered here, so that
  every portfolio below is written over an arithmetic \<open>ar\<close>: sum, difference and the
  two comparisons of floats; \<open>n * x\<close> and \<open>x / n\<close> for an integer \<open>n\<close> (the
  integer is converted first, which raises OverflowError when it is too large); \<open>x / y\<close>
  (which may raise on a zero divisor); \<open>int(numpy.ceil(x))\<close> (which raises on an
  infinity or a NaN); the integer 0 that \<open>sum\<close> starts from, and the constant
  \<open>-1e-1\<close>.
\<close>

record 'f arith =
  f_add :: "'f \<Rightarrow> 'f \<Rightarrow> 'f"
  f_sub :: "'f \<Rightarrow> 'f \<Rightarrow> 'f"
  f_int_mul :: "int \<Rightarrow> 'f \<Rightarrow> py_error + 'f"
  f_div :: "'f \<Rightarrow> 'f \<Rightarrow> py_error + 'f"
  f_div_int :: "'f \<Rightarrow> int \<Rightarrow> py_error + 'f"
  f_less :: "'f \<Rightarrow> 'f \<Rightarrow> bool"
  f_le :: "'f \<Rightarrow> 'f \<Rightarrow> bool"
  f_ceil_int :: "'f \<Rightarrow> py_error + int"
  f_zero :: 'f
  f_neg_tenth :: 'f

text \<open>Python's \<open>min(a, b)\<close> of two floats: \<open>b\<close> when \<open>b < a\<close>, else \<open>a\<close>.\<close>

definition py_min :: "'f arith \<Rightarrow> 'f \<Rightarrow> 'f \<Rightarrow> 'f" where
  "py_min ar a b = (if f_less ar b a then b else a)"

text \<open>Python's \<open>sum\<close> of floats: from the integer 0, adding from the left.\<close>

definition py_sum :: "'f arith \<Rightarrow> 'f list \<Rightarrow> 'f" where
  "py_sum ar xs = foldl (f_add ar) (f_zero ar) xs"

subsection \<open>IEEE 754 binary64\<close>

text \<open>
  A double is a finite real (one of the 53-bit binary fractions of the format, of which
  the two zeros are not told apart), an infinity or a NaN. Every operation gives the
  exact result rounded to the nearest double, ties to the even one: \<open>round64\<close> rounds
  on the grid of the binade of its argument, or in the subnormal range below \<open>2^-1022\<close>, and what
  rounds beyond the largest double becomes an infinity.
\<close>

datatype double = Finite real | PlusInf | MinusInf | NaN

definition round_half_even :: "real \<Rightarrow> int" where
  "round_half_even y =
     (let f = \<lfloor>y\<rfloor>; d = y - of_int f in
      if d < 1 / 2 then f else if 1 / 2 < d then f + 1 else if even f then f else f + 1)"

definition exponent :: "real \<Rightarrow> int" where
  "exponent x = max \<lfloor>log 2 \<bar>x\<bar>\<rfloor> (- 1022)"

definition quantum :: "real \<Rightarrow> real" where
  "quantum x = 2 powr of_int (exponent x - 52)"

definition round64 :: "real \<Rightarrow> real" where
  "round64 x = (if x = 0 then 0 else quantum x * of_int (round_half_even (x / quantum x)))"

definition max_double :: real where
  "max_double = (2 ^ 53 - 1) * 2 ^ 971"

definition to_double :: "real \<Rightarrow> double" where
  "to_double x =
     (let r = round64 x in
      if max_double < r then PlusInf else if r < - max_double then MinusInf else Finite r)"

fun d_neg :: "double \<Rightarrow> double" where
  "d_neg (Finite a) = Finite (- a)"
| "d_neg PlusInf = MinusInf"
| "d_neg MinusInf = PlusInf"
| "d_neg NaN = NaN"

fun d_add :: "double \<Rightarrow> double \<Rightarrow> double" where
  "d_add (Finite a) (Finite b) = to_double (a + b)"
| "d_add NaN y = NaN"
| "d_add x NaN = NaN"
| "d_add PlusInf MinusInf = NaN"
| "d_add MinusInf PlusInf = NaN"
| "d_add PlusInf y = PlusInf"
| "d_add MinusInf y = MinusInf"
| "d_add x PlusInf = PlusInf"
| "d_add x MinusInf = MinusInf"

definition d_sub :: "double \<Rightarrow> double \<Rightarrow> double" where
  "d_sub x y = d_add x (d_neg y)"

text \<open>The sign of a double that is not a NaN: -1, 0 or 1.\<close>

fun d_sign :: "double \<Rightarrow> int" where
  "d_sign (Finite a) = (if a < 0 then - 1 else if a = 0 then 0 else 1)"
| "d_sign PlusInf = 1"
| "d_sign MinusInf = - 1"
| "d_sign NaN = 0"

fun d_mul :: "double \<Rightarrow> double \<Rightarrow> double" where
  "d_mul (Finite a) (Finite b) = to_double (a * b)"
| "d_mul NaN y = NaN"
| "d_mul x NaN = NaN"
| "d_mul x y =
     (if d_sign x * d_sign y = 0 then NaN
      else if 0 < d_sign x * d_sign y then PlusInf else MinusInf)"

text \<open>Python's float division: a zero divisor raises ZeroDivisionError.\<close>

fun d_div :: "double \<Rightarrow> double \<Rightarrow> py_error + double" where
  "d_div x (Finite b) =
     (if b = 0 then Inl ArithmeticError
      else (case x of
              Finite a \<Rightarrow> Inr (to_double (a / b))
            | NaN \<Rightarrow> Inr NaN
            | _ \<Rightarrow> Inr (if 0 < d_sign x * d_sign (Finite b) then PlusInf else MinusInf)))"
| "d_div x NaN = Inr NaN"
| "d_div (Finite a) y = Inr (Finite 0)"
| "d_div x y = Inr NaN"

fun d_less :: "double \<Rightarrow> double \<Rightarrow> bool" where
  "d_less (Finite a) (Finite b) = (a < b)"
| "d_less NaN y = False"
| "d_less x NaN = False"
| "d_less x MinusInf = False"
| "d_less PlusInf y = False"
| "d_less x y = True"

fun d_le :: "double \<Rightarrow> double \<Rightarrow> bool" where
  "d_le (Finite a) (Finite b) = (a \<le> b)"
| "d_le NaN y = False"
| "d_le x NaN = False"
| "d_le MinusInf y = True"
| "d_le x PlusInf = True"
| "d_le x y = False"

text \<open>
  \<open>float(n)\<close> of a Python integer: the nearest double, OverflowError (an
  ArithmeticError) beyond the largest.
\<close>

definition d_of_int :: "int \<Rightarrow> py_error + double" where
  "d_of_int n =
     (case to_double (of_int n) of Finite r \<Rightarrow> Inr (Finite r) | _ \<Rightarrow> Inl ArithmeticError)"

definition d_int_mul :: "int \<Rightarrow> double \<Rightarrow> py_error + double" where
  "d_int_mul n x = (case d_of_int n of Inl e \<Rightarrow> Inl e | Inr d \<Rightarrow> Inr (d_mul d x))"

definition d_div_int :: "double \<Rightarrow> int \<Rightarrow> py_error + double" where
  "d_div_int x n = (case d_of_int n of Inl e \<Rightarrow> Inl e | Inr d \<Rightarrow> d_div x d)"

text \<open>
  \<open>int(numpy.ceil(x))\<close>: OverflowError on an infinity, ValueError on a NaN.
\<close>

fun d_ceil_int :: "double \<Rightarrow> py_error + int" where
  "d_ceil_int (Finite a) = Inr \<lceil>a\<rceil>"
| "d_ceil_int NaN = Inl ValueError"
| "d_ceil_int x = Inl ArithmeticError"

definition binary64 :: "double arith" where
  "binary64 =
     \<lparr>f_add = d_add, f_sub = d_sub, f_int_mul = d_int_mul, f_div = d_div,
      f_div_int = d_div_int, f_less = d_less, f_le = d_le, f_ceil_int = d_ceil_int,
      f_zero = Finite 0, f_neg_tenth = Finite (- round64 (1 / 10))\<rparr>"

section \<open>Portfolios (borg/portfolios.py)\<close>

subsection \<open>Suites, plans and the record of what was run\<close>

text \<open>
  A plan is a list of pairs \<open>(s, b)\<close>: the index of a solver in the sorted solver names
  and a bin index. A solver of the suite is what
  \<open>suite.solvers[name].start(task).run_then_stop(seconds)\<close> does: from the seconds
  allowed and the world (the machine, its CPU clock and whatever the solver reads) to the
  answer, if any, and the world after the run. The list is in the order of
  \<open>sorted(suite.solvers)\<close>, so that \<open>solver_names[s]\<close> is always a key of
  \<open>suite.solvers\<close> and only the index can be out of range.
\<close>

type_synonym plan = "(nat \<times> nat) list"

record ('f, 'w, 'a) suite =
  solvers :: "('f \<Rightarrow> 'w \<Rightarrow> 'a option \<times> 'w) list"
  domain_is_final :: "'a option \<Rightarrow> bool"

text \<open>
  Every bounded invocation is logged with the plan step it came from, the interval and
  the value of the variable \<open>remaining\<close> when it was issued, the seconds passed to
  \<open>run_then_stop\<close> and the answer. Every planning is logged with the failures it
  conditioned on, the remaining budget it was restricted to and the plan it gave.
\<close>

record ('f, 'a) invocation =
  inv_solver :: nat
  inv_bin :: nat
  inv_interval :: 'f
  inv_remaining :: 'f
  inv_duration :: 'f
  inv_answer :: "'a option"

datatype ('f, 'a) event = Planned plan 'f plan | Ran "('f, 'a) invocation"

text \<open>Python's \<open>xs[:n]\<close>: a negative \<open>n\<close> counts from the end.\<close>

definition py_slice_to :: "int \<Rightarrow> 'x list \<Rightarrow> 'x list" where
  "py_slice_to n xs = (if 0 \<le> n then take (nat n) xs else take (nat (int (length xs) + n)) xs)"

text \<open>numpy's \<open>a[..., :n]\<close> on an array of three axes.\<close>

definition slice_last_axis :: "int \<Rightarrow> 'f list list list \<Rightarrow> 'f list list list" where
  "slice_last_axis n a = map (map (py_slice_to n)) a"

text \<open>
  The model object (\<open>borg.models\<close>, not under src/) as the portfolios read it: its
  interval, its log-survival array (component, solver, bin) and its log-weights.
\<close>

record ('f, 'lw) model =
  interval :: 'f
  log_survival :: "'f list list list"
  log_weights :: 'lw

subsection \<open>Following a fixed plan: OraclePortfolio and PreplanningPortfolio\<close>

text \<open>
  The loop of lines 96-110 (OraclePortfolio) and, statement for statement, of lines
  131-145 (PreplanningPortfolio, with \<open>self._model.interval\<close> for the interval).
  \<open>(b + 1) * interval\<close> converts the integer and may raise; a failed \<open>assert\<close>
  raises AssertionError; \<open>solver_names[s]\<close> out of range raises IndexError.
\<close>

fun follow_through ::
  "'f arith \<Rightarrow> ('f, 'w, 'a) suite \<Rightarrow> 'f \<Rightarrow> plan \<Rightarrow> 'f \<Rightarrow> 'w \<Rightarrow>
   (py_error + 'a option) \<times> 'w \<times> ('f, 'a) event list" where
  "follow_through ar su itv [] remaining w = (Inr None, w, [])"
| "follow_through ar su itv ((s, b) # rest) remaining w =
     (case f_int_mul ar (int b + 1) itv of
        Inl e \<Rightarrow> (Inl e, w, [])
      | Inr this_budget \<Rightarrow>
          if \<not> f_less ar (f_neg_tenth ar) (f_sub ar remaining this_budget)
          then (Inl AssertionError, w, [])
          else if length (solvers su) \<le> s then (Inl IndexError, w, [])
          else
            (let (ans, w') = (solvers su ! s) this_budget w;
                 ev = Ran \<lparr>inv_solver = s, inv_bin = b, inv_interval = itv,
                            inv_remaining = remaining, inv_duration = this_budget,
                            inv_answer = ans\<rparr>
             in if domain_is_final su ans then (Inr ans, w', [ev])
                else
                  (let (r, w'', tr) =
                         follow_through ar su itv rest (f_sub ar remaining this_budget) w'
                   in (r, w'', ev # tr))))"

text \<open>
  \<open>PreplanningPortfolio\<close>: \<open>__init__\<close> (lines 115-126) plans once from the model's
  log-survival without its last bin; \<open>__call__\<close> (lines 128-145) follows that plan.
  The planner (\<open>borg.planners\<close>, not under src/) is a parameter.
\<close>

record ('f, 'lw) PreplanningPortfolio =
  pp_model :: "('f, 'lw) model"
  pp_plan :: plan

definition PreplanningPortfolio_init ::
  "('f list list list \<Rightarrow> plan) \<Rightarrow> ('f, 'lw) model \<Rightarrow> ('f, 'lw) PreplanningPortfolio" where
  "PreplanningPortfolio_init planner m =
     \<lparr>pp_model = m, pp_plan = planner (slice_last_axis (- 1) (log_survival m))\<rparr>"

definition PreplanningPortfolio_call ::
  "'f arith \<Rightarrow> ('f, 'lw) PreplanningPortfolio \<Rightarrow> ('f, 'w, 'a) suite \<Rightarrow> 'f \<Rightarrow> 'w \<Rightarrow>
   (py_error + 'a option) \<times> 'w \<times> ('f, 'a) event list" where
  "PreplanningPortfolio_call ar self su budget_cpu_seconds w =
     follow_through ar su (interval (pp_model self)) (pp_plan self) budget_cpu_seconds w"

text \<open>
  \<open>OraclePortfolio.__call__\<close>. The run data of the task (\<open>suite.run_data.filter(task)\<close>,
  subsampled or not) is given by what the portfolio reads of it: the outcome counts
  \<open>to_bins_array(solver_names, budget_count)[0]\<close>, one row of bins per solver, and
  the common budget. Lines 85-88 turn the counts into the log-survival array with
  numpy (\<open>astype\<close>, \<open>+\<close>, \<open>sum\<close>, \<open>/\<close>, \<open>cumsum\<close>, \<open>log\<close>); what numpy computes
  there is the parameter \<open>curves\<close>, and the planner is a parameter as before.
\<close>

record 'f run_data =
  bins_array :: "nat list list"
  common_budget :: 'f

definition budget_count :: nat where
  "budget_count = 100"

text \<open>Line 91: the interval.\<close>

definition Oracle_interval :: "'f arith \<Rightarrow> 'f run_data \<Rightarrow> py_error + 'f" where
  "Oracle_interval ar data = f_div_int ar (common_budget data) (int budget_count)"

text \<open>
  Lines 85-93: the curves, the interval and the plan from the curves under one more
  leading axis (\<open>log_survival[None, ...]\<close>).
\<close>

definition Oracle_plan ::
  "'f arith \<Rightarrow> (nat list list \<Rightarrow> py_error + 'f list list) \<Rightarrow> ('f list list list \<Rightarrow> plan) \<Rightarrow>
   'f run_data \<Rightarrow> py_error + 'f \<times> plan" where
  "Oracle_plan ar curves planner data =
     (case curves (bins_array data) of
        Inl e \<Rightarrow> Inl e
      | Inr ls \<Rightarrow>
          (case Oracle_interval ar data of
             Inl e \<Rightarrow> Inl e
           | Inr itv \<Rightarrow> Inr (itv, planner [ls])))"

definition OraclePortfolio_call ::
  "'f arith \<Rightarrow> (nat list list \<Rightarrow> py_error + 'f list list) \<Rightarrow> ('f list list list \<Rightarrow> plan) \<Rightarrow>
   'f run_data \<Rightarrow> ('f, 'w, 'a) suite \<Rightarrow> 'f \<Rightarrow> 'w \<Rightarrow>
   (py_error + 'a option) \<times> 'w \<times> ('f, 'a) event list" where
  "OraclePortfolio_call ar curves planner data su budget_cpu_seconds w =
     (case Oracle_plan ar curves planner data of
        Inl e \<Rightarrow> (Inl e, w, [])
      | Inr (itv, pl) \<Rightarrow> follow_through ar su itv pl budget_cpu_seconds w)"

subsection \<open>PureModelPortfolio\<close>

text \<open>
  What the portfolio calls outside this file: the accountant's clock
  (\<open>accountant.total.cpu_seconds\<close>, read off the world), the CPU time that computing
  the features and that conditioning and planning take (as changes of the world),
  \<open>model.condition(failures)\<close>, \<open>model.with_weights(weights)\<close> and the predicted
  log-weights of a task (\<open>numpy.log(regress.predict(...))\<close> of its sorted features).
\<close>

record ('f, 'w, 'lw, 't) externals =
  cpu_seconds :: "'w \<Rightarrow> 'f"
  feature_time :: "'w \<Rightarrow> 'w"
  planning_time :: "'w \<Rightarrow> 'w"
  condition :: "('f, 'lw) model \<Rightarrow> plan \<Rightarrow> ('f, 'lw) model"
  with_weights :: "('f, 'lw) model \<Rightarrow> 'lw \<Rightarrow> ('f, 'lw) model"
  predicted_weights :: "'t \<Rightarrow> 'lw"

text \<open>
  The members set by \<open>__init__\<close> (lines 150-157); \<open>pm_regress\<close> says whether a
  regression was given.
\<close>

record ('f, 'lw) PureModelPortfolio =
  pm_model :: "('f, 'lw) model"
  pm_regress :: bool
  pm_planner :: "'f list list list \<Rightarrow> 'lw \<Rightarrow> plan"
  pm_runs_limit :: nat

definition PureModelPortfolio_init ::
  "('f, 'lw) model \<Rightarrow> bool \<Rightarrow> ('f list list list \<Rightarrow> 'lw \<Rightarrow> plan) \<Rightarrow>
   ('f, 'lw) PureModelPortfolio" where
  "PureModelPortfolio_init m regress planner =
     \<lparr>pm_model = m, pm_regress = regress, pm_planner = planner, pm_runs_limit = 256\<rparr>"

text \<open>
  The variables of the loop: \<open>plan\<close>, \<open>failures\<close>, \<open>model\<close> and the world.
  \<open>model\<close> is unbound until the first planning, which the empty first plan forces
  before any read of it.
\<close>

record ('f, 'w, 'lw) pm_state =
  st_plan :: plan
  st_failures :: plan
  st_model :: "('f, 'lw) model"
  st_world :: 'w

text \<open>
  The plan that lines 185-192 derive from the initial model, the failures and the
  remaining budget; the division and \<open>int(numpy.ceil(...))\<close> may raise.
\<close>

definition derive_plan ::
  "'f arith \<Rightarrow> ('f, 'lw) PureModelPortfolio \<Rightarrow> ('f, 'w, 'lw, 't) externals \<Rightarrow> ('f, 'lw) model \<Rightarrow>
   plan \<Rightarrow> 'f \<Rightarrow> py_error + plan" where
  "derive_plan ar self ext initial_model failures remaining =
     (let m = condition ext initial_model failures in
      case f_div ar remaining (interval m) of
        Inl e \<Rightarrow> Inl e
      | Inr ratio \<Rightarrow>
          (case f_ceil_int ar ratio of
             Inl e \<Rightarrow> Inl e
           | Inr remaining_b \<Rightarrow>
               Inr (pm_planner self (slice_last_axis remaining_b (log_survival m))
                      (log_weights m))))"

text \<open>Lines 184-192: nothing when the plan is not empty, a new model and plan when it is.\<close>

definition replan_if_empty ::
  "'f arith \<Rightarrow> ('f, 'lw) PureModelPortfolio \<Rightarrow> ('f, 'w, 'lw, 't) externals \<Rightarrow> ('f, 'lw) model \<Rightarrow>
   'f \<Rightarrow> 'f \<Rightarrow> ('f, 'w, 'lw) pm_state \<Rightarrow>
   py_error + ('f, 'w, 'lw) pm_state \<times> ('f, 'a) event list" where
  "replan_if_empty ar self ext initial_model budget_cpu_seconds elapsed st =
     (if st_plan st = [] then
        (let remaining = f_sub ar budget_cpu_seconds elapsed in
         case derive_plan ar self ext initial_model (st_failures st) remaining of
           Inl e \<Rightarrow> Inl e
         | Inr pl \<Rightarrow>
             Inr (st\<lparr>st_model := condition ext initial_model (st_failures st),
                      st_plan := pl,
                      st_world := planning_time ext (st_world st)\<rparr>,
                  [Planned (st_failures st) remaining pl]))
      else Inr (st, []))"

text \<open>
  The loop of lines 178-205, by the number of iterations left. \<open>plan.pop(0)\<close> on an
  empty plan raises IndexError, as does \<open>self._solver_names[s]\<close> out of range.
\<close>

fun pm_loop ::
  "'f arith \<Rightarrow> ('f, 'lw) PureModelPortfolio \<Rightarrow> ('f, 'w, 'lw, 't) externals \<Rightarrow> ('f, 'w, 'a) suite \<Rightarrow>
   ('f, 'lw) model \<Rightarrow> 'f \<Rightarrow> nat \<Rightarrow> ('f, 'w, 'lw) pm_state \<Rightarrow>
   (py_error + 'a option) \<times> ('f, 'w, 'lw) pm_state \<times> ('f, 'a) event list" where
  "pm_loop ar self ext su initial_model budget_cpu_seconds 0 st = (Inr None, st, [])"
| "pm_loop ar self ext su initial_model budget_cpu_seconds (Suc k) st =
     (let elapsed = cpu_seconds ext (st_world st) in
      if f_le ar budget_cpu_seconds elapsed then (Inr None, st, [])
      else
        (case replan_if_empty ar self ext initial_model budget_cpu_seconds elapsed st of
           Inl e \<Rightarrow> (Inl e, st, [])
         | Inr (st1, planned) \<Rightarrow>
             (case st_plan st1 of
                [] \<Rightarrow> (Inl IndexError, st1, planned)
              | (s, b) # rest \<Rightarrow>
                  (let remaining =
                         f_sub ar budget_cpu_seconds (cpu_seconds ext (st_world st1))
                   in case f_int_mul ar (int b + 1) (interval (st_model st1)) of
                        Inl e \<Rightarrow> (Inl e, st1\<lparr>st_plan := rest\<rparr>, planned)
                      | Inr whole \<Rightarrow>
                          (let duration = py_min ar remaining whole
                           in if length (solvers su) \<le> s
                              then (Inl IndexError, st1\<lparr>st_plan := rest\<rparr>, planned)
                              else
                                (let (ans, w') = (solvers su ! s) duration (st_world st1);
                                     ev = Ran \<lparr>inv_solver = s, inv_bin = b,
                                                inv_interval = interval (st_model st1),
                                                inv_remaining = remaining,
                                                inv_duration = duration, inv_answer = ans\<rparr>
                                 in if domain_is_final su ans
                                    then (Inr ans, st1\<lparr>st_plan := rest, st_world := w'\<rparr>,
                                          planned @ [ev])
                                    else
                                      (let (r, st', tr) =
                                             pm_loop ar self ext su initial_model
                                               budget_cpu_seconds k
                                               (st1\<lparr>st_plan := rest, st_world := w',
                                                    st_failures :=
                                                      st_failures st1 @ [(s, b)]\<rparr>)
                                       in (r, st', planned @ ev # tr))))))))"

text \<open>
  Lines 164-172: the model itself without a regression, the model with the predicted
  weights with one (computing the features takes CPU time).
\<close>

definition initial_model_of ::
  "('f, 'lw) PureModelPortfolio \<Rightarrow> ('f, 'w, 'lw, 't) externals \<Rightarrow> 't \<Rightarrow> ('f, 'lw) model" where
  "initial_model_of self ext tsk =
     (if pm_regress self
      then with_weights ext (pm_model self) (predicted_weights ext tsk)
      else pm_model self)"

text \<open>
  \<open>PureModelPortfolio.__call__\<close>: the initial model, then the loop from an empty plan
  and no failures, for at most \<open>self._runs_limit\<close> iterations.
\<close>

definition PureModelPortfolio_call ::
  "'f arith \<Rightarrow> ('f, 'lw) PureModelPortfolio \<Rightarrow> ('f, 'w, 'lw, 't) externals \<Rightarrow> 't \<Rightarrow>
   ('f, 'w, 'a) suite \<Rightarrow> 'f \<Rightarrow> 'w \<Rightarrow>
   (py_error + 'a option) \<times> ('f, 'w, 'lw) pm_state \<times> ('f, 'a) event list" where
  "PureModelPortfolio_call ar self ext tsk su budget_cpu_seconds w =
     (let initial_model = initial_model_of self ext tsk;
          w0 = (if pm_regress self then feature_time ext w else w)
      in pm_loop ar self ext su initial_model budget_cpu_seconds (pm_runs_limit self)
           \<lparr>st_plan = [], st_failures = [], st_model = initial_model, st_world = w0\<rparr>)"

text \<open>What a call returned or raised, and the trace of what it ran.\<close>

definition outcome :: "'r \<times> 's \<times> 't \<Rightarrow> 'r" where
  "outcome call = fst call"

definition trace_of :: "'r \<times> 's \<times> 't \<Rightarrow> 't" where
  "trace_of call = snd (snd call)"

subsection \<open>UniformPortfolio\<close>

text \<open>
  The started processes (\<open>[s.start(task) for s in suite.solvers.values()]\<close>) with what
  the portfolio reads and calls of a process: \<open>elapsed\<close>, \<open>terminated\<close> and
  \<open>run_then_pause(seconds)\<close>, which gives the answer, if any, and the process after
  the run; and the domain's \<open>is_final\<close> for the task.
\<close>

record ('f, 'p, 'a) uniform_suite =
  started :: "'p list"
  elapsed :: "'p \<Rightarrow> 'f"
  terminated :: "'p \<Rightarrow> bool"
  run_then_pause :: "'f \<Rightarrow> 'p \<Rightarrow> 'a option \<times> 'p"
  is_final_answer :: "'a option \<Rightarrow> bool"

text \<open>
  A turn of the cycle: the process at that position was skipped, or was run for some
  seconds and gave an answer.
\<close>

datatype ('f, 'a) turn = Skipped nat | Slice nat 'f "'a option"

text \<open>
  Line 26, with the budget's CPU seconds a float and the divisor the integer
  \<open>len(suite.solvers) * 100\<close>.
\<close>

definition budget_each_of :: "'f arith \<Rightarrow> 'f \<Rightarrow> nat \<Rightarrow> py_error + 'f" where
  "budget_each_of ar budget_cpu_seconds n = f_div_int ar budget_cpu_seconds (int n * 100)"

text \<open>\<open>finished()\<close>, lines 30-33.\<close>

definition finished ::
  "'f arith \<Rightarrow> ('f, 'p, 'a) uniform_suite \<Rightarrow> 'f \<Rightarrow> 'f \<Rightarrow> 'p list \<Rightarrow> bool" where
  "finished ar su budget_cpu_seconds budget_each ps \<longleftrightarrow>
     f_less ar (f_sub ar budget_cpu_seconds (py_sum ar (map (elapsed su) ps))) budget_each \<or>
     list_all (terminated su) ps"

text \<open>
  The loop of lines 35-44, which may run forever: \<open>i\<close> counts the calls of
  \<open>next_process.next()\<close>, so that the process taken is the one at \<open>i mod len(processes)\<close>;
  a run changes that process where it stands in the list. The result is the value
  returned, the processes and the turns taken.
\<close>

partial_function (option) uniform_loop ::
  "'f arith \<Rightarrow> ('f, 'p, 'a) uniform_suite \<Rightarrow> 'f \<Rightarrow> 'f \<Rightarrow> 'p list \<Rightarrow> nat \<Rightarrow> ('f, 'a) turn list \<Rightarrow>
   ('a option \<times> 'p list \<times> ('f, 'a) turn list) option" where
  "uniform_loop ar su budget_cpu_seconds budget_each ps i tr =
     (if finished ar su budget_cpu_seconds budget_each ps then Some (None, ps, tr)
      else
        (let k = i mod length ps; process = ps ! k in
         if terminated su process
         then uniform_loop ar su budget_cpu_seconds budget_each ps (i + 1) (tr @ [Skipped k])
         else
           (let (ans, process') = run_then_pause su budget_each process;
                ps' = ps [k := process'];
                tr' = tr @ [Slice k budget_each ans]
            in if is_final_answer su ans then Some (ans, ps', tr')
               else uniform_loop ar su budget_cpu_seconds budget_each ps' (i + 1) tr')))"

declare uniform_loop.simps [code]

text \<open>\<open>UniformPortfolio.__call__\<close>; \<open>None\<close> when the loop never ends.\<close>

definition UniformPortfolio_call ::
  "'f arith \<Rightarrow> ('f, 'p, 'a) uniform_suite \<Rightarrow> 'f \<Rightarrow>
   ((py_error + 'a option) \<times> 'p list \<times> ('f, 'a) turn list) option" where
  "UniformPortfolio_call ar su budget_cpu_seconds =
     (case budget_each_of ar budget_cpu_seconds (length (started su)) of
        Inl e \<Rightarrow> Some (Inl e, started su, [])
      | Inr budget_each \<Rightarrow>
          map_option (\<lambda>(ans, ps, tr). (Inr ans, ps, tr))
            (uniform_loop ar su budget_cpu_seconds budget_each (started su) 0 []))"

section \<open>Notions of the specification and concrete scenarios\<close>

subsection \<open>Traces\<close>

text \<open>The bounded invocations of a trace, in order.\<close>

fun invocations :: "('f, 'a) event list \<Rightarrow> ('f, 'a) invocation list" where
  "invocations [] = []"
| "invocations (Ran i # es) = i # invocations es"
| "invocations (Planned fs remaining pl # es) = invocations es"

text \<open>The failed steps of a trace: the pairs of the invocations whose answer was not final.\<close>

definition failed_steps :: "('a option \<Rightarrow> bool) \<Rightarrow> ('f, 'a) event list \<Rightarrow> plan" where
  "failed_steps fin tr =
     map (\<lambda>i. (inv_solver i, inv_bin i)) (filter (\<lambda>i. \<not> fin (inv_answer i)) (invocations tr))"

text \<open>
  Re-planning after every failure, as a property of a trace: every invocation is
  issued under a plan that was derived after the last failure, from all the failures
  observed up to then. \<open>fs\<close> is the list of failures so far; \<open>fresh\<close> says that the
  current plan was conditioned on all of them.
\<close>

fun conditioned_on_all_failures ::
  "('a option \<Rightarrow> bool) \<Rightarrow> plan \<Rightarrow> bool \<Rightarrow> ('f, 'a) event list \<Rightarrow> bool" where
  "conditioned_on_all_failures fin fs fresh [] = True"
| "conditioned_on_all_failures fin fs fresh (Planned fs' remaining pl # es) =
     conditioned_on_all_failures fin fs (fs' = fs) es"
| "conditioned_on_all_failures fin fs fresh (Ran i # es) =
     (fresh \<and>
      conditioned_on_all_failures fin
        (if fin (inv_answer i) then fs else fs @ [(inv_solver i, inv_bin i)])
        (fresh \<and> fin (inv_answer i)) es)"

subsection \<open>A run that re-plans when its plan is exhausted\<close>

text \<open>
  The plan that a planner gives from a model restricted to the remaining budget: the
  log-survival of the model cut to the first \<open>ceil(remaining / interval)\<close> bins, with
  the model's log-weights. The division and the conversion of the ceiling may raise.
\<close>

definition restricted_plan ::
  "'f arith \<Rightarrow> ('f list list list \<Rightarrow> 'lw \<Rightarrow> plan) \<Rightarrow> ('f, 'lw) model \<Rightarrow> 'f \<Rightarrow> py_error + plan" where
  "restricted_plan ar planner m remaining =
     (case f_div ar remaining (interval m) of
        Inl e \<Rightarrow> Inl e
      | Inr bins \<Rightarrow>
          (case f_ceil_int ar bins of
             Inl e \<Rightarrow> Inl e
           | Inr n \<Rightarrow> Inr (planner (slice_last_axis n (log_survival m)) (log_weights m))))"

text \<open>
  How the first step of a plan can raise before any solver runs: there is no step, the
  whole duration \<open>(b + 1) * interval\<close> cannot be computed, or the suite has no solver
  of that index.
\<close>

definition step_raises ::
  "'f arith \<Rightarrow> ('f, 'w, 'a) suite \<Rightarrow> 'f \<Rightarrow> plan \<Rightarrow> py_error + 'a option \<Rightarrow> bool" where
  "step_raises ar su itv cur r =
     (case cur of
        [] \<Rightarrow> r = Inl IndexError
      | (s, b) # rest \<Rightarrow>
          (case f_int_mul ar (int b + 1) itv of
             Inl e \<Rightarrow> r = Inl e
           | Inr whole \<Rightarrow> length (solvers su) \<le> s \<and> r = Inl IndexError))"

text \<open>
  A run of at most \<open>k\<close> more invocations under the budget \<open>B\<close>, from the current plan
  \<open>cur\<close>, the failures so far \<open>fs\<close>, the current model \<open>m\<close> and the world \<open>w\<close>, that
  leaves the trace given and ends with \<open>r\<close>; \<open>planned\<close> says that a plan has just been
  derived and its first step is due.

  \<^item> The run goes on exactly while an invocation is left and the clock of the world is
    below the budget; when it does not go on, nothing more happens and \<open>r\<close> is None.
  \<^item> When it goes on with the current plan exhausted, the next event is a planning,
    and a planning happens only then: it conditions the initial model on exactly the
    failures so far, is restricted to the budget less the clock, gives the plan that the
    planner derives from the conditioned model and that remaining budget, and takes its
    time. If the plan cannot be derived the run ends with that error.
  \<^item> When it goes on with a step \<open>(s, b)\<close> left in the current plan, the next event is
    the invocation of that step, with no planning before it: solver \<open>s\<close> of the suite
    is run from the world for the lesser of what remains (the budget less the clock) and
    \<open>(b + 1) * interval\<close>. A final answer ends the run and is \<open>r\<close>; otherwise
    \<open>(s, b)\<close> joins the failures and the run continues with the rest of the plan. If
    the step raises before the solver runs, the run ends with that error.
\<close>

fun replanning_run ::
  "'f arith \<Rightarrow> ('f list list list \<Rightarrow> 'lw \<Rightarrow> plan) \<Rightarrow> ('f, 'w, 'lw, 't) externals \<Rightarrow>
   ('f, 'w, 'a) suite \<Rightarrow> ('f, 'lw) model \<Rightarrow> 'f \<Rightarrow> bool \<Rightarrow> nat \<Rightarrow> plan \<Rightarrow> plan \<Rightarrow>
   ('f, 'lw) model \<Rightarrow> 'w \<Rightarrow> ('f, 'a) event list \<Rightarrow> py_error + 'a option \<Rightarrow> bool" where
  "replanning_run ar planner ext su im B planned k cur fs m w [] r =
     (if planned then step_raises ar su (interval m) cur r
      else if k = 0 \<or> f_le ar B (cpu_seconds ext w) then r = Inr None
      else if cur = [] then
        (case restricted_plan ar planner (condition ext im fs) (f_sub ar B (cpu_seconds ext w)) of
           Inl e \<Rightarrow> r = Inl e
         | Inr pl \<Rightarrow> False)
      else step_raises ar su (interval m) cur r)"
| "replanning_run ar planner ext su im B planned k cur fs m w (Planned fs' remaining pl # es) r =
     (\<not> planned \<and> 0 < k \<and> \<not> f_le ar B (cpu_seconds ext w) \<and> cur = [] \<and>
      fs' = fs \<and> remaining = f_sub ar B (cpu_seconds ext w) \<and>
      restricted_plan ar planner (condition ext im fs) remaining = Inr pl \<and>
      replanning_run ar planner ext su im B True k pl fs (condition ext im fs)
        (planning_time ext w) es r)"
| "replanning_run ar planner ext su im B planned k cur fs m w (Ran i # es) r =
     ((planned \<or> (0 < k \<and> \<not> f_le ar B (cpu_seconds ext w))) \<and>
      (case cur of
         [] \<Rightarrow> False
       | (s, b) # rest \<Rightarrow>
           (case f_int_mul ar (int b + 1) (interval m) of
              Inl e \<Rightarrow> False
            | Inr whole \<Rightarrow>
                s < length (solvers su) \<and>
                inv_solver i = s \<and> inv_bin i = b \<and> inv_interval i = interval m \<and>
                inv_remaining i = f_sub ar B (cpu_seconds ext w) \<and>
                inv_duration i =
                  (if f_less ar whole (inv_remaining i) then whole else inv_remaining i) \<and>
                inv_answer i = fst ((solvers su ! s) (inv_duration i) w) \<and>
                (if domain_is_final su (inv_answer i) then es = [] \<and> r = Inr (inv_answer i)
                 else replanning_run ar planner ext su im B False (k - 1) rest (fs @ [(s, b)]) m
                        (snd ((solvers su ! s) (inv_duration i) w)) es r))))"

subsection \<open>A run that follows a fixed plan\<close>

text \<open>
  A run that follows the plan given from the remaining budget \<open>remaining\<close> and the
  world \<open>w\<close>, leaves the trace given and ends with \<open>r\<close>. With no step left nothing
  more happens and \<open>r\<close> is None. The step \<open>(s, b)\<close> is allotted the whole
  \<open>(b + 1) * interval\<close>, whatever remains; it is issued only if what remains less the
  allotment is above \<open>-1e-1\<close>, and the run ends with AssertionError otherwise. The
  invocation runs solver \<open>s\<close> of the suite from the world for the whole allotment. A
  final answer ends the run and is \<open>r\<close>; otherwise the run continues with the rest of
  the plan and with the remaining budget less the allotment (not less the time that the
  solver took).
\<close>

fun fixed_plan_run ::
  "'f arith \<Rightarrow> ('f, 'w, 'a) suite \<Rightarrow> 'f \<Rightarrow> plan \<Rightarrow> 'f \<Rightarrow> 'w \<Rightarrow> ('f, 'a) event list \<Rightarrow>
   py_error + 'a option \<Rightarrow> bool" where
  "fixed_plan_run ar su itv [] remaining w es r = (es = [] \<and> r = Inr None)"
| "fixed_plan_run ar su itv ((s, b) # rest) remaining w es r =
     (case f_int_mul ar (int b + 1) itv of
        Inl e \<Rightarrow> es = [] \<and> r = Inl e
      | Inr whole \<Rightarrow>
          if \<not> f_less ar (f_neg_tenth ar) (f_sub ar remaining whole)
          then es = [] \<and> r = Inl AssertionError
          else if length (solvers su) \<le> s then es = [] \<and> r = Inl IndexError
          else
            (case es of
               Ran i # es' \<Rightarrow>
                 inv_solver i = s \<and> inv_bin i = b \<and> inv_interval i = itv \<and>
                 inv_remaining i = remaining \<and> inv_duration i = whole \<and>
                 inv_answer i = fst ((solvers su ! s) whole w) \<and>
                 (if domain_is_final su (inv_answer i) then es' = [] \<and> r = Inr (inv_answer i)
                  else fixed_plan_run ar su itv rest (f_sub ar remaining whole)
                         (snd ((solvers su ! s) whole w)) es' r)
             | _ \<Rightarrow> False))"

text \<open>
  The duration of an invocation as the lesser of what remained and
  \<open>(b + 1) * interval\<close>.
\<close>

definition runs_min_duration :: "'f arith \<Rightarrow> ('f, 'a) invocation \<Rightarrow> bool" where
  "runs_min_duration ar i \<longleftrightarrow>
     (case f_int_mul ar (int (inv_bin i) + 1) (inv_interval i) of
        Inl e \<Rightarrow> False
      | Inr whole \<Rightarrow>
          inv_duration i = (if f_less ar whole (inv_remaining i) then whole else inv_remaining i))"

subsection \<open>The capacity of a plan\<close>

text \<open>
  The capacity a plan asks for, in exact arithmetic: the sum over its steps of
  \<open>(bin_index + 1) * interval\<close>.
\<close>

definition plan_capacity :: "plan \<Rightarrow> real \<Rightarrow> real" where
  "plan_capacity pl itv = (\<Sum>(s, b) \<leftarrow> pl. (real b + 1) * itv)"

subsection \<open>Round robin\<close>

text \<open>
  The unspent budget: the budget less the sum of the CPU seconds that the processes have
  used, summed from zero in the order of the processes. The round robin stops when the
  unspent budget is below one slice or all processes have terminated.
\<close>

definition unspent :: "'f arith \<Rightarrow> ('f, 'p, 'a) uniform_suite \<Rightarrow> 'f \<Rightarrow> 'p list \<Rightarrow> 'f" where
  "unspent ar su budget_cpu_seconds ps =
     f_sub ar budget_cpu_seconds (foldl (f_add ar) (f_zero ar) (map (elapsed su) ps))"

definition stops :: "'f arith \<Rightarrow> ('f, 'p, 'a) uniform_suite \<Rightarrow> 'f \<Rightarrow> 'f \<Rightarrow> 'p list \<Rightarrow> bool" where
  "stops ar su budget_cpu_seconds slice ps \<longleftrightarrow>
     f_less ar (unspent ar su budget_cpu_seconds ps) slice \<or> list_all (terminated su) ps"

text \<open>
  A round robin with slices from the processes \<open>ps\<close> at the count \<open>i\<close> that takes the
  turns given, returns \<open>result\<close> and leaves the processes \<open>ps'\<close>. With no turn left the
  round robin has stopped, the result is None and the processes are as they were. A turn
  is taken only while the round robin has not stopped, and is the next position of the
  cycle; it is skipped exactly when its process has terminated; a process that has not
  is run for one slice, gives the answer of the turn and is replaced by what the run
  left. A final answer ends the turns at once and is the result.
\<close>

fun round_robin_run ::
  "'f arith \<Rightarrow> ('f, 'p, 'a) uniform_suite \<Rightarrow> 'f \<Rightarrow> 'f \<Rightarrow> 'p list \<Rightarrow> nat \<Rightarrow> ('f, 'a) turn list \<Rightarrow>
   'a option \<Rightarrow> 'p list \<Rightarrow> bool" where
  "round_robin_run ar su budget_cpu_seconds slice ps i [] result ps' =
     (stops ar su budget_cpu_seconds slice ps \<and> result = None \<and> ps' = ps)"
| "round_robin_run ar su budget_cpu_seconds slice ps i (Skipped k # ts) result ps' =
     (\<not> stops ar su budget_cpu_seconds slice ps \<and>
      k = i mod length ps \<and> terminated su (ps ! k) \<and>
      round_robin_run ar su budget_cpu_seconds slice ps (i + 1) ts result ps')"
| "round_robin_run ar su budget_cpu_seconds slice ps i (Slice k seconds ans # ts) result ps' =
     (\<not> stops ar su budget_cpu_seconds slice ps \<and>
      k = i mod length ps \<and> \<not> terminated su (ps ! k) \<and> seconds = slice \<and>
      ans = fst (run_then_pause su slice (ps ! k)) \<and>
      (if is_final_answer su ans
       then ts = [] \<and> result = ans \<and> ps' = ps [k := snd (run_then_pause su slice (ps ! k))]
       else round_robin_run ar su budget_cpu_seconds slice
              (ps [k := snd (run_then_pause su slice (ps ! k))]) (i + 1) ts result ps'))"

subsection \<open>Scenarios in binary64\<close>

text \<open>
  A suite of two solvers over a world that is the CPU clock alone: the first never
  answers, the second answers when given at least two seconds; both use all the time
  they are given. An answer is final when there is one.
\<close>

definition example_suite :: "(double, double, bool) suite" where
  "example_suite =
     \<lparr>solvers = [(\<lambda>seconds w. (None, d_add w seconds)),
                 (\<lambda>seconds w. (if d_le (Finite 2) seconds then Some True else None,
                                d_add w seconds))],
      domain_is_final = (\<lambda>a. a \<noteq> None)\<rparr>"

text \<open>
  A model that keeps, for its log-weights, the failures it was conditioned on; externals
  over the clock alone, where planning and feature computation take no time and
  conditioning records the failures.
\<close>

definition example_model :: "double \<Rightarrow> (double, plan) model" where
  "example_model itv = \<lparr>interval = itv, log_survival = [], log_weights = []\<rparr>"

definition example_externals :: "(double, double, plan, string) externals" where
  "example_externals =
     \<lparr>cpu_seconds = (\<lambda>w. w), feature_time = (\<lambda>w. w), planning_time = (\<lambda>w. w),
      condition = (\<lambda>m failures. m\<lparr>log_weights := failures\<rparr>), with_weights = (\<lambda>m lw. m),
      predicted_weights = (\<lambda>tsk. [])\<rparr>"

text \<open>
  Three planners: one that always gives the single step \<open>(0, 0)\<close>; one that always
  gives the two steps \<open>(0, 0)\<close>, \<open>(1, 0)\<close>; and one that gives the single step
  \<open>(0, 0)\<close> for a model conditioned on no failure and the single step \<open>(1, 1)\<close> for
  a model conditioned on some.
\<close>

definition one_step_planner :: "double list list list \<Rightarrow> plan \<Rightarrow> plan" where
  "one_step_planner ls lw = [(0, 0)]"

definition two_step_planner :: "double list list list \<Rightarrow> plan \<Rightarrow> plan" where
  "two_step_planner ls lw = [(0, 0), (1, 0)]"

definition learning_planner :: "double list list list \<Rightarrow> plan \<Rightarrow> plan" where
  "learning_planner ls lw = (if lw = [] then [(0, 0)] else [(1, 1)])"

text \<open>Run data of two solvers with the common budget given.\<close>

definition example_data :: "double \<Rightarrow> double run_data" where
  "example_data cb = \<lparr>bins_array = [[0, 0], [0, 0]], common_budget = cb\<rparr>"

text \<open>
  A process for the round robin: the CPU seconds it has used, whether it has terminated,
  the seconds of CPU it needs to answer, whether it crashes instead of answering, and
  the seconds by which each of its runs exceeds the slice it is given.
\<close>

record example_process =
  used :: double
  has_terminated :: bool
  needs :: double
  crashes :: bool
  overrun :: double

definition example_run_then_pause ::
  "double \<Rightarrow> example_process \<Rightarrow> bool option \<times> example_process" where
  "example_run_then_pause seconds p =
     (if d_le (needs p) (d_add (used p) (d_add seconds (overrun p)))
      then (if crashes p then None else Some True, p\<lparr>used := needs p, has_terminated := True\<rparr>)
      else (None, p\<lparr>used := d_add (used p) (d_add seconds (overrun p))\<rparr>))"

definition example_uniform_suite ::
  "example_process list \<Rightarrow> (double, example_process, bool) uniform_suite" where
  "example_uniform_suite ps =
     \<lparr>started = ps, elapsed = used, terminated = has_terminated,
      run_then_pause = example_run_then_pause, is_final_answer = (\<lambda>a. a \<noteq> None)\<rparr>"

text \<open>
  Three pairs of processes: one that crashes after a second beside one that answers after
  three; two that crash after a second; two that never answer and overrun every slice by
  119 seconds.
\<close>

definition crashing_and_slow :: "example_process list" where
  "crashing_and_slow =
     [\<lparr>used = Finite 0, has_terminated = False, needs = Finite 1, crashes = True,
       overrun = Finite 0\<rparr>,
      \<lparr>used = Finite 0, has_terminated = False, needs = Finite 3, crashes = False,
       overrun = Finite 0\<rparr>]"

definition both_crashing :: "example_process list" where
  "both_crashing =
     [\<lparr>used = Finite 0, has_terminated = False, needs = Finite 1, crashes = True,
       overrun = Finite 0\<rparr>,
      \<lparr>used = Finite 0, has_terminated = False, needs = Finite 1, crashes = True,
       overrun = Finite 0\<rparr>]"

definition both_overrunning :: "example_process list" where
  "both_overrunning =
     [\<lparr>used = Finite 0, has_terminated = False, needs = Finite 1000, crashes = False,
       overrun = Finite 119\<rparr>,
      \<lparr>used = Finite 0, has_terminated = False, needs = Finite 1000, crashes = False,
       overrun = Finite 119\<rparr>]"

section \<open>Properties of the lookup indirection and of the domain\<close>

text \<open>
  C10. For every pseudo-Boolean task, \<open>is_final\<close> of an absent answer is False; of an
  answer \<open>(description, certificate)\<close> it is True exactly when the description is
  SATISFIABLE or UNSATISFIABLE for a task without an objective, and OPTIMUM FOUND or
  UNSATISFIABLE for a task with one.
\<close>

theorem is_final_characterisation:
  fixes tsk :: "'o PseudoBooleanTask" and c :: 'c
  shows
  "is_final tsk (None :: (string \<times> 'c) option) = False \<and>
   is_final tsk (Some (d, c)) =
     (if objective (opb tsk) = None
      then d = ''SATISFIABLE'' \<or> d = ''UNSATISFIABLE''
      else d = ''OPTIMUM FOUND'' \<or> d = ''UNSATISFIABLE'')"
  by (auto simp add: is_final_def)

theorem is_final_characterisation_witness:
  "is_final \<lparr>path = ''a.opb'', opb = \<lparr>objective = (None :: nat option), nonlinear = False\<rparr>,
             linearized_path = None\<rparr> (None :: (string \<times> nat) option) = False \<and>
   is_final \<lparr>path = ''a.opb'', opb = \<lparr>objective = (None :: nat option), nonlinear = False\<rparr>,
             linearized_path = None\<rparr> (Some (''SATISFIABLE'', 0 :: nat)) = True \<and>
   is_final \<lparr>path = ''a.opb'', opb = \<lparr>objective = Some (1 :: nat), nonlinear = False\<rparr>,
             linearized_path = None\<rparr> (Some (''SATISFIABLE'', 0 :: nat)) = False \<and>
   is_final \<lparr>path = ''a.opb'', opb = \<lparr>objective = Some (1 :: nat), nonlinear = False\<rparr>,
             linearized_path = None\<rparr> (Some (''OPTIMUM FOUND'', 0 :: nat)) = True"
  using
    is_final_characterisation
      [of "\<lparr>path = ''a.opb'', opb = \<lparr>objective = (None :: nat option), nonlinear = False\<rparr>,
            linearized_path = None\<rparr>" "''SATISFIABLE''" "0 :: nat"]
    is_final_characterisation
      [of "\<lparr>path = ''a.opb'', opb = \<lparr>objective = Some (1 :: nat), nonlinear = False\<rparr>,
            linearized_path = None\<rparr>" "''SATISFIABLE''" "0 :: nat"]
    is_final_characterisation
      [of "\<lparr>path = ''a.opb'', opb = \<lparr>objective = Some (1 :: nat), nonlinear = False\<rparr>,
            linearized_path = None\<rparr>" "''OPTIMUM FOUND''" "0 :: nat"]
  by simp

text \<open>
  C7. Resolving a solver name against an environment fails exactly when the name is
  absent from the environment's registry, the failure is \<open>UnknownSolverError\<close>, and
  when the name is present the registered solver is returned.
\<close>

theorem look_up_fails_iff_absent:
  "(isl (look_up n env) \<longleftrightarrow> n \<notin> dom (named_solvers env)) \<and>
   (n \<notin> dom (named_solvers env) \<longrightarrow> look_up n env = Inl UnknownSolverError) \<and>
   (\<forall>s. named_solvers env n = Some s \<longrightarrow> look_up n env = Inr s)"
  by (cases "named_solvers env n") (auto simp add: look_up_def registry_getitem_def)

theorem look_up_fails_iff_absent_witness:
  "''zchaff'' \<notin> dom (named_solvers \<lparr>named_solvers = [''minisat'' \<mapsto> (5 :: nat)]\<rparr>) \<and>
   look_up ''zchaff'' \<lparr>named_solvers = [''minisat'' \<mapsto> (5 :: nat)]\<rparr> = Inl UnknownSolverError \<and>
   named_solvers \<lparr>named_solvers = [''minisat'' \<mapsto> (5 :: nat)]\<rparr> ''minisat'' = Some 5 \<and>
   look_up ''minisat'' \<lparr>named_solvers = [''minisat'' \<mapsto> (5 :: nat)]\<rparr> = Inr 5"
  using
    look_up_fails_iff_absent [of "''zchaff''" "\<lparr>named_solvers = [''minisat'' \<mapsto> (5 :: nat)]\<rparr>"]
    look_up_fails_iff_absent [of "''minisat''" "\<lparr>named_solvers = [''minisat'' \<mapsto> (5 :: nat)]\<rparr>"]
  by simp

text \<open>
  C6. For every environment whose registry contains the handle's name, and every task,
  budget and random source, \<open>LookupSolver.solve\<close> returns an attempt whose solver is
  the name-handle itself, not the resolved concrete solver, and whose budget, cost, task
  and answer are those of the attempt the resolved solver produced.
\<close>

theorem solve_rebinds_solver:
  assumes "named_solvers env n = Some rs"
  shows "\<exists>a. solve n tsk bud rnd env = Inr a \<and>
           solver a = LookupSolver n \<and>
           solver a \<noteq> ConcreteSolver (ident rs) \<and>
           budget a = budget (solve_impl rs tsk bud rnd) \<and>
           cost a = cost (solve_impl rs tsk bud rnd) \<and>
           task a = task (solve_impl rs tsk bud rnd) \<and>
           answer a = answer (solve_impl rs tsk bud rnd)"
  using assms
  by (simp add: solve_def look_up_def registry_getitem_def RecycledAttempt_def Let_def)

theorem solve_rebinds_solver_witness:
  "named_solvers \<lparr>named_solvers = [''minisat'' \<mapsto> example_solver]\<rparr> ''minisat''
     = Some example_solver \<and>
   solve ''minisat'' ''a.cnf'' 10 3 \<lparr>named_solvers = [''minisat'' \<mapsto> example_solver]\<rparr>
     = Inr \<lparr>solver = LookupSolver ''minisat'', budget = 10, cost = 5, task = ''a.cnf'',
            answer = Some True\<rparr>"
proof -
  let ?env = "\<lparr>named_solvers = [''minisat'' \<mapsto> example_solver]\<rparr>"
  have h: "named_solvers ?env ''minisat'' = Some example_solver"
    by simp
  from solve_rebinds_solver [OF h, of "''a.cnf''" 10 3]
  obtain a where
    "solve ''minisat'' ''a.cnf'' 10 3 ?env = Inr a" and
    "solver a = LookupSolver ''minisat''" and
    "budget a = budget (solve_impl example_solver ''a.cnf'' 10 3)" and
    "cost a = cost (solve_impl example_solver ''a.cnf'' 10 3)" and
    "task a = task (solve_impl example_solver ''a.cnf'' 10 3)" and
    "answer a = answer (solve_impl example_solver ''a.cnf'' 10 3)"
    by blast
  then have "solve ''minisat'' ''a.cnf'' 10 3 ?env =
      Inr \<lparr>solver = LookupSolver ''minisat'', budget = 10, cost = 5, task = ''a.cnf'',
            answer = Some True\<rparr>"
    by (cases a) (simp add: example_solver_def)
  with h show ?thesis by simp
qed

text \<open>
  C9. Every call of \<open>LookupPreprocessor.preprocess\<close> raises ImportError at its first
  statement: the module \<open>borg.solvers.attempts\<close> binds \<open>WrappedPreprocessingAttempt\<close>
  and no \<open>WrappedPreprocessorAttempt\<close>. The world is left as it was, so the resolved
  preprocessor was not run, and no wrapped attempt is returned.
\<close>

theorem preprocess_always_import_error:
  "preprocess n tsk bud output_path rnd env w = (Inl ImportError, w) \<and>
   ''WrappedPreprocessingAttempt'' \<in> set attempts_module \<and>
   ''WrappedPreprocessorAttempt'' \<notin> set attempts_module"
  by (simp add: preprocess_def import_from_def attempts_module_def)

theorem preprocess_always_import_error_witness:
  "preprocess ''satelite'' ''a.cnf'' (10 :: real) ''out'' (3 :: nat)
     \<lparr>named_solvers = [''satelite'' \<mapsto> example_solver]\<rparr> (0 :: nat)
   = (Inl ImportError, 0)"
  using preprocess_always_import_error
    [of "''satelite''" "''a.cnf''" "10 :: real" "''out''" "3 :: nat"
        "\<lparr>named_solvers = [''satelite'' \<mapsto> example_solver]\<rparr>" "0 :: nat"]
  by simp

section \<open>Properties of binary64 rounding\<close>

lemma round_half_even_of_int [simp]: "round_half_even (of_int k) = k"
  by (simp add: round_half_even_def)

lemma round_half_even_error: "\<bar>of_int (round_half_even y) - y\<bar> \<le> 1 / 2"
  unfolding round_half_even_def Let_def by (auto simp: abs_if) linarith+

lemma round_half_even_nonneg: "0 \<le> y \<Longrightarrow> 0 \<le> round_half_even y"
  unfolding round_half_even_def Let_def by auto

lemma quantum_pos: "0 < quantum x"
  by (simp add: quantum_def)

lemma round64_nonneg: "0 \<le> x \<Longrightarrow> 0 \<le> round64 x"
  using quantum_pos [of x] round_half_even_nonneg [of "x / quantum x"]
  by (simp add: round64_def)

lemma round64_error_quantum: "\<bar>round64 x - x\<bar> \<le> quantum x / 2"
proof (cases "x = 0")
  case True
  then show ?thesis using quantum_pos [of 0] by (simp add: round64_def)
next
  case False
  let ?q = "quantum x"
  have q: "0 < ?q" by (rule quantum_pos)
  have "round64 x - x = ?q * (of_int (round_half_even (x / ?q)) - x / ?q)"
    using False q by (simp add: round64_def algebra_simps)
  then have "\<bar>round64 x - x\<bar> = ?q * \<bar>of_int (round_half_even (x / ?q)) - x / ?q\<bar>"
    using q by (simp add: abs_mult)
  also have "\<dots> \<le> ?q * (1 / 2)"
    using q round_half_even_error [of "x / ?q"] by (intro mult_left_mono) simp_all
  finally show ?thesis by simp
qed

lemma exponent_normal:
  assumes "2 powr (- 1022) \<le> \<bar>x\<bar>"
  shows "exponent x = \<lfloor>log 2 \<bar>x\<bar>\<rfloor>"
proof -
  have x: "0 < \<bar>x\<bar>" using assms by (smt (verit) powr_gt_zero)
  have "- 1022 \<le> log 2 \<bar>x\<bar>"
    using assms x by (simp add: le_log_iff)
  then have "(- 1022 :: int) \<le> \<lfloor>log 2 \<bar>x\<bar>\<rfloor>" by (simp add: le_floor_iff)
  then show ?thesis unfolding exponent_def by (rule max_absorb1)
qed

lemma exponent_subnormal:
  assumes "\<bar>x\<bar> < 2 powr (- 1022)" "x \<noteq> 0"
  shows "exponent x = - 1022"
proof -
  have "log 2 \<bar>x\<bar> < - 1022"
    using assms by (simp add: log_less_iff)
  then have "\<lfloor>log 2 \<bar>x\<bar>\<rfloor> < (- 1022 :: int)" by (simp add: floor_less_iff)
  then have "\<lfloor>log 2 \<bar>x\<bar>\<rfloor> \<le> (- 1022 :: int)" by simp
  then show ?thesis unfolding exponent_def by (rule max_absorb2)
qed

lemma quantum_normal:
  assumes "2 powr (- 1022) \<le> \<bar>x\<bar>"
  shows "quantum x \<le> \<bar>x\<bar> * 2 powr (- 52)"
proof -
  have x: "0 < \<bar>x\<bar>" using assms by (smt (verit) powr_gt_zero)
  have "quantum x = 2 powr (of_int \<lfloor>log 2 \<bar>x\<bar>\<rfloor> + (- 52))"
    by (simp add: quantum_def exponent_normal [OF assms])
  also have "\<dots> = 2 powr (of_int \<lfloor>log 2 \<bar>x\<bar>\<rfloor>) * 2 powr (- 52)"
    by (rule powr_add)
  also have "\<dots> \<le> 2 powr (log 2 \<bar>x\<bar>) * 2 powr (- 52)"
    by (intro mult_right_mono powr_mono) simp_all
  also have "2 powr (log 2 \<bar>x\<bar>) = \<bar>x\<bar>" using x by simp
  finally show ?thesis .
qed

lemma quantum_subnormal:
  assumes "\<bar>x\<bar> < 2 powr (- 1022)" "x \<noteq> 0"
  shows "quantum x = 2 powr (- 1074)"
  by (simp add: quantum_def exponent_subnormal [OF assms])

lemma round64_error: "\<bar>round64 x - x\<bar> \<le> \<bar>x\<bar> * 2 powr (- 53) + 2 powr (- 1075)"
proof (cases "x = 0")
  case True
  then show ?thesis by (simp add: round64_def)
next
  case nz: False
  show ?thesis
  proof (cases "2 powr (- 1022) \<le> \<bar>x\<bar>")
    case True
    have "\<bar>round64 x - x\<bar> \<le> quantum x / 2" by (rule round64_error_quantum)
    also have "\<dots> \<le> (\<bar>x\<bar> * 2 powr (- 52)) / 2"
      using quantum_normal [OF True] by simp
    also have "\<dots> = \<bar>x\<bar> * 2 powr (- 53)"
      by (simp add: powr_minus)
    finally show ?thesis by (smt (verit) powr_gt_zero)
  next
    case False
    then have "quantum x = 2 powr (- 1074)" using nz by (intro quantum_subnormal) simp_all
    with round64_error_quantum [of x] have "\<bar>round64 x - x\<bar> \<le> 2 powr (- 1074) / 2" by simp
    also have "\<dots> = 2 powr (- 1075)" by (simp add: powr_minus)
    finally show ?thesis by (smt (verit) mult_nonneg_nonneg abs_ge_zero powr_ge_zero)
  qed
qed

text \<open>A binary fraction of at most 53 bits above \<open>2^-1074\<close> is rounded to itself.\<close>

lemma exponent_upper:
  assumes "x \<noteq> 0" "\<bar>x\<bar> < 2 powr of_int j" "- 1021 \<le> j"
  shows "exponent x \<le> j - 1"
proof -
  have "log 2 \<bar>x\<bar> < of_int j"
    using assms(1,2) by (simp add: log_less_iff)
  then have "\<lfloor>log 2 \<bar>x\<bar>\<rfloor> < j" by (simp add: floor_less_iff)
  with assms(3) show ?thesis by (simp add: exponent_def)
qed

lemma round64_representable:
  assumes "x = of_int m * 2 powr of_int k" "\<bar>m\<bar> < 2 ^ 53" "- 1074 \<le> k"
  shows "round64 x = x"
proof (cases "x = 0")
  case True
  then show ?thesis by (simp add: round64_def)
next
  case False
  have "\<bar>x\<bar> = of_int \<bar>m\<bar> * 2 powr of_int k"
    by (simp add: assms(1) abs_mult)
  also have "\<dots> < 2 ^ 53 * 2 powr of_int k"
  proof (rule mult_strict_right_mono)
    have "of_int \<bar>m\<bar> < (of_int (2 ^ 53) :: real)"
      using assms(2) by (simp only: of_int_less_iff)
    then show "of_int \<bar>m\<bar> < (2 ^ 53 :: real)" by simp
  qed simp
  also have "\<dots> = 2 powr of_int (k + 53)"
    by (simp add: powr_add powr_numeral)
  finally have "\<bar>x\<bar> < 2 powr of_int (k + 53)" .
  from exponent_upper [OF False this] assms(3) have "exponent x \<le> k + 52" by simp
  then obtain d :: nat where d: "k = exponent x - 52 + int d"
    by (metis add_diff_cancel_left' diff_diff_eq2 diff_ge_0_iff_ge nonneg_int_cases)
  let ?q = "quantum x"
  have q: "0 < ?q" by (rule quantum_pos)
  have "2 powr of_int k = ?q * 2 powr of_int (int d)"
    unfolding quantum_def by (subst d) (simp only: of_int_add powr_add)
  also have "2 powr of_int (int d) = (2 :: real) ^ d"
    by (simp add: powr_realpow)
  finally have pk: "2 powr of_int k = ?q * 2 ^ d" .
  note assms(1)
  also have "of_int m * 2 powr of_int k = of_int m * (?q * 2 ^ d)"
    by (rule arg_cong [OF pk])
  also have "\<dots> = ?q * of_int (m * 2 ^ d)"
    by simp
  finally have "x = ?q * of_int (m * 2 ^ d)" .
  then have "x / ?q = ?q * of_int (m * 2 ^ d) / ?q" by simp
  also have "\<dots> = of_int (m * 2 ^ d)"
    using q by (intro nonzero_mult_div_cancel_left) simp
  finally have "x / ?q = of_int (m * 2 ^ d)" .
  then have "round_half_even (x / ?q) = m * 2 ^ d"
    by (simp only: round_half_even_of_int)
  then have "round64 x = ?q * of_int (m * 2 ^ d)"
    using False by (simp add: round64_def)
  also have "\<dots> = ?q * (x / ?q)"
    using \<open>x / ?q = of_int (m * 2 ^ d)\<close> by simp
  also have "\<dots> = x" using q by simp
  finally show ?thesis .
qed

lemma round64_dyadic:
  assumes "\<bar>m\<bar> < 2 ^ 53" "j \<le> 1074"
  shows "round64 (of_int m / 2 ^ j) = of_int m / 2 ^ j"
proof (rule round64_representable [where m = m and k = "- int j"])
  show "(of_int m :: real) / 2 ^ j = of_int m * 2 powr of_int (- int j)"
    by (simp add: powr_minus powr_realpow field_simps)
qed (use assms in simp_all)

lemma max_double_large: "2 ^ 53 \<le> max_double"
  by (simp add: max_double_def)

lemma to_double_dyadic:
  assumes "\<bar>m\<bar> < 2 ^ 53" "j \<le> 1074"
  shows "to_double (of_int m / 2 ^ j) = Finite (of_int m / 2 ^ j)"
proof -
  have "\<bar>of_int m / 2 ^ j\<bar> \<le> \<bar>(of_int m :: real)\<bar>"
    by (simp add: abs_divide field_simps mult_le_cancel_left1)
  also have "\<dots> \<le> 2 ^ 53"
  proof -
    have "of_int \<bar>m\<bar> \<le> (of_int (2 ^ 53) :: real)"
      using assms(1) by (simp only: of_int_le_iff)
    then show ?thesis by simp
  qed
  finally have "\<bar>of_int m / 2 ^ j\<bar> \<le> max_double"
    using max_double_large by simp
  then have "\<not> max_double < of_int m / 2 ^ j" "\<not> of_int m / 2 ^ j < - max_double"
    by linarith+
  then show ?thesis
    by (simp add: to_double_def round64_dyadic [OF assms] Let_def)
qed

lemma to_double_int: "\<bar>m\<bar> < 2 ^ 53 \<Longrightarrow> to_double (of_int m) = Finite (of_int m)"
  using to_double_dyadic [of m 0] by simp

lemma to_double_numeral [simp]:
  "numeral n < (2 :: int) ^ 53 \<Longrightarrow> to_double (numeral n) = Finite (numeral n)"
  using to_double_int [of "numeral n"] by simp

lemma to_double_neg_numeral [simp]:
  "numeral n < (2 :: int) ^ 53 \<Longrightarrow> to_double (- numeral n) = Finite (- numeral n)"
  using to_double_int [of "- numeral n"] by simp

lemma to_double_zero [simp]: "to_double 0 = Finite 0"
  using to_double_int [of 0] by simp

lemma to_double_one [simp]: "to_double 1 = Finite 1"
  using to_double_int [of 1] by simp

lemma d_of_int_small: "\<bar>n\<bar> < 2 ^ 53 \<Longrightarrow> d_of_int n = Inr (Finite (of_int n))"
  by (simp add: d_of_int_def to_double_int)

section \<open>Properties of the portfolios\<close>

subsection \<open>The loop of PureModelPortfolio\<close>

lemma derive_plan_restricted:
  "derive_plan ar self ext im fs remaining =
     restricted_plan ar (pm_planner self) (condition ext im fs) remaining"
  by (simp add: derive_plan_def restricted_plan_def Let_def)

lemma replan_if_empty_cases:
  assumes "replan_if_empty ar self ext im B secs st = Inr (st1, planned)"
  shows "(st_plan st \<noteq> [] \<and> st1 = st \<and> planned = []) \<or>
         (st_plan st = [] \<and>
          restricted_plan ar (pm_planner self) (condition ext im (st_failures st))
            (f_sub ar B secs) = Inr (st_plan st1) \<and>
          st_failures st1 = st_failures st \<and>
          st_model st1 = condition ext im (st_failures st) \<and>
          st_world st1 = planning_time ext (st_world st) \<and>
          planned = [Planned (st_failures st) (f_sub ar B secs) (st_plan st1)])"
  using assms
  by (auto simp add: replan_if_empty_def derive_plan_restricted Let_def
      split: if_splits sum.splits)

lemma replan_if_empty_raises:
  assumes "replan_if_empty ar self ext im B secs st = Inl e"
  shows "st_plan st = [] \<and>
         restricted_plan ar (pm_planner self) (condition ext im (st_failures st))
           (f_sub ar B secs) = Inl e"
  using assms
  by (auto simp add: replan_if_empty_def derive_plan_restricted Let_def
      split: if_splits sum.splits)

lemma replan_if_empty_invocations:
  assumes "replan_if_empty ar self ext im B secs st = Inr (st1, planned)"
  shows "invocations planned = []"
  using replan_if_empty_cases [OF assms] by auto

lemma invocations_append: "invocations (xs @ ys) = invocations xs @ invocations ys"
  by (induction xs rule: invocations.induct) simp_all

lemma pm_loop_invocations:
  assumes "pm_loop ar self ext su im B k st = (r, st', tr)"
  shows "length (invocations tr) \<le> k \<and>
         (length (invocations tr) = k \<and>
          list_all (\<lambda>i. \<not> domain_is_final su (inv_answer i)) (invocations tr)
            \<longrightarrow> r = Inr None)"
  using assms
proof (induction k arbitrary: st r st' tr)
  case 0
  then show ?case by simp
next
  case (Suc k)
  show ?case
    using Suc.prems
    by (auto simp add: Let_def invocations_append
        split: if_splits sum.splits prod.splits list.splits
        dest!: Suc.IH replan_if_empty_invocations)
qed

lemma pm_loop_failures:
  assumes "pm_loop ar self ext su im B k st = (r, st', tr)"
  shows "st_failures st' = st_failures st @ failed_steps (domain_is_final su) tr"
  using assms
proof (induction k arbitrary: st r st' tr)
  case 0
  then show ?case by (simp add: failed_steps_def)
next
  case (Suc k)
  show ?case
    using Suc.prems
    by (auto simp add: Let_def failed_steps_def invocations_append
        split: if_splits sum.splits prod.splits list.splits
        dest!: Suc.IH replan_if_empty_cases)
qed

lemma runs_min_duration_record:
  assumes "f_int_mul ar (int b + 1) itv = Inr whole"
  shows "runs_min_duration ar
           \<lparr>inv_solver = s, inv_bin = b, inv_interval = itv, inv_remaining = remaining,
            inv_duration = d, inv_answer = a\<rparr> \<longleftrightarrow>
         d = (if f_less ar whole remaining then whole else remaining)"
  using assms by (simp add: runs_min_duration_def)

lemma pm_loop_min_duration:
  assumes "pm_loop ar self ext su im B k st = (r, st', tr)"
  shows "list_all (runs_min_duration ar) (invocations tr)"
  using assms
proof (induction k arbitrary: st r st' tr)
  case 0
  then show ?case by simp
next
  case (Suc k)
  show ?case
    using Suc.prems
    by (auto simp add: Let_def runs_min_duration_record py_min_def invocations_append
        split: if_splits sum.splits prod.splits list.splits
        dest!: Suc.IH replan_if_empty_invocations)
qed

lemma pm_loop_replanning_run:
  assumes "pm_loop ar self ext su im B k st = (r, st', tr)"
  shows "replanning_run ar (pm_planner self) ext su im B False k
           (st_plan st) (st_failures st) (st_model st) (st_world st) tr r"
  using assms
proof (induction k arbitrary: st r st' tr)
  case 0
  then show ?case by simp
next
  case (Suc k)
  show ?case
    using Suc.prems
    by (auto simp add: Let_def step_raises_def py_min_def
        split: if_splits sum.splits prod.splits list.splits
        dest!: Suc.IH replan_if_empty_cases replan_if_empty_raises)
qed

subsection \<open>The loop of OraclePortfolio and PreplanningPortfolio\<close>

lemma follow_through_fixed_plan_run:
  assumes "follow_through ar su itv pl remaining w = (r, w', tr)"
  shows "fixed_plan_run ar su itv pl remaining w tr r"
  using assms
proof (induction pl arbitrary: remaining w r w' tr)
  case Nil
  then show ?case by auto
next
  case (Cons sb rest)
  obtain s b where sb: "sb = (s, b)" by (cases sb)
  show ?case
    using Cons.prems
    by (auto simp add: sb Let_def
        split: if_splits prod.splits sum.splits dest!: Cons.IH)
qed

subsection \<open>The round robin of UniformPortfolio\<close>

lemmas uniform_loop_induct = uniform_loop.raw_induct [rotated 1, consumes 1, case_names step]

lemma finished_stops: "finished ar su B slice ps = stops ar su B slice ps"
  by (simp add: finished_def stops_def unspent_def py_sum_def)

lemma uniform_loop_sound:
  assumes "uniform_loop ar su B slice ps i tr = Some y"
  shows "\<exists>new. snd (snd y) = tr @ new \<and>
           round_robin_run ar su B slice ps i new (fst y) (fst (snd y))"
  using assms
proof (induct rule: uniform_loop_induct)
  case (step loop ar su B slice ps i tr y)
  note IH = step.hyps(1) and body = step.hyps(2)
  show ?case
  proof (cases "stops ar su B slice ps")
    case True
    with body have "y = (None, ps, tr)" by (simp add: finished_stops)
    with True have "snd (snd y) = tr @ [] \<and>
        round_robin_run ar su B slice ps i [] (fst y) (fst (snd y))"
      by simp
    then show ?thesis by blast
  next
    case unfinished: False
    let ?k = "i mod length ps"
    show ?thesis
    proof (cases "terminated su (ps ! ?k)")
      case True
      with unfinished body have "loop ar su B slice ps (i + 1) (tr @ [Skipped ?k]) = Some y"
        by (simp add: Let_def finished_stops)
      from IH [OF this] obtain new where
        "snd (snd y) = (tr @ [Skipped ?k]) @ new"
        "round_robin_run ar su B slice ps (i + 1) new (fst y) (fst (snd y))"
        by blast
      with True unfinished have "snd (snd y) = tr @ (Skipped ?k # new) \<and>
          round_robin_run ar su B slice ps i (Skipped ?k # new) (fst y) (fst (snd y))"
        by simp
      then show ?thesis by blast
    next
      case running: False
      obtain ans p' where run: "run_then_pause su slice (ps ! ?k) = (ans, p')"
        by (cases "run_then_pause su slice (ps ! ?k)")
      show ?thesis
      proof (cases "is_final_answer su ans")
        case True
        with unfinished running run body
        have "y = (ans, ps [?k := p'], tr @ [Slice ?k slice ans])"
          by (simp add: Let_def finished_stops)
        with True unfinished running run have "snd (snd y) = tr @ [Slice ?k slice ans] \<and>
            round_robin_run ar su B slice ps i [Slice ?k slice ans] (fst y) (fst (snd y))"
          by simp
        then show ?thesis by blast
      next
        case False
        with unfinished running run body
        have "loop ar su B slice (ps [?k := p']) (i + 1) (tr @ [Slice ?k slice ans]) = Some y"
          by (simp add: Let_def finished_stops)
        from IH [OF this] obtain new where
          "snd (snd y) = (tr @ [Slice ?k slice ans]) @ new"
          "round_robin_run ar su B slice (ps [?k := p']) (i + 1) new (fst y) (fst (snd y))"
          by blast
        with False unfinished running run have
          "snd (snd y) = tr @ (Slice ?k slice ans # new) \<and>
            round_robin_run ar su B slice ps i (Slice ?k slice ans # new) (fst y) (fst (snd y))"
          by simp
        then show ?thesis by blast
      qed
    qed
  qed
qed

lemma uniform_loop_complete:
  assumes "round_robin_run ar su B slice ps i new result ps'"
  shows "uniform_loop ar su B slice ps i tr = Some (result, ps', tr @ new)"
  using assms
proof (induction new arbitrary: ps i tr)
  case Nil
  then show ?case
    by (subst uniform_loop.simps) (simp add: finished_stops)
next
  case (Cons t ts)
  show ?case
  proof (cases t)
    case (Skipped k)
    with Cons.prems have
      here: "\<not> stops ar su B slice ps" "k = i mod length ps" "terminated su (ps ! k)"
      and rest: "round_robin_run ar su B slice ps (i + 1) ts result ps'"
      by auto
    from Cons.IH [OF rest, of "tr @ [Skipped k]"] here show ?thesis
      by (subst uniform_loop.simps) (simp add: Skipped Let_def finished_stops)
  next
    case (Slice k seconds ans)
    obtain a p' where run: "run_then_pause su slice (ps ! k) = (a, p')"
      by (cases "run_then_pause su slice (ps ! k)")
    have fst_run: "fst (run_then_pause su slice (ps ! k)) = a"
      and snd_run: "snd (run_then_pause su slice (ps ! k)) = p'"
      using run by simp_all
    from Cons.prems Slice have
      here: "\<not> stops ar su B slice ps" "k = i mod length ps" "\<not> terminated su (ps ! k)"
        "seconds = slice"
      by auto
    from Cons.prems Slice here(2) fst_run have ans: "ans = a"
      by auto
    show ?thesis
    proof (cases "is_final_answer su a")
      case True
      with Cons.prems Slice here(2) ans fst_run snd_run
      have "ts = []" "result = a" "ps' = ps [k := p']"
        by auto
      with True here run ans show ?thesis
        by (subst uniform_loop.simps) (simp add: Slice Let_def finished_stops)
    next
      case False
      with Cons.prems Slice here(2) ans fst_run snd_run have
        rr: "round_robin_run ar su B slice (ps [k := p']) (i + 1) ts result ps'"
        by auto
      from Cons.IH [OF rr, of "tr @ [Slice k slice a]"] False here run ans show ?thesis
        by (subst uniform_loop.simps) (simp add: Slice Let_def finished_stops)
    qed
  qed
qed

lemma UniformPortfolio_call_iff:
  assumes "f_div_int ar B (int (length (started su)) * 100) = Inr slice"
  shows "UniformPortfolio_call ar su B = Some (r, ps', tr) \<longleftrightarrow>
           (\<exists>result. r = Inr result \<and>
              round_robin_run ar su B slice (started su) 0 tr result ps')"
proof
  assume "UniformPortfolio_call ar su B = Some (r, ps', tr)"
  with assms obtain result where
    r: "r = Inr result" and
    loop: "uniform_loop ar su B slice (started su) 0 [] = Some (result, ps', tr)"
    by (auto simp add: UniformPortfolio_call_def budget_each_of_def)
  from uniform_loop_sound [OF loop] r show
    "\<exists>result. r = Inr result \<and> round_robin_run ar su B slice (started su) 0 tr result ps'"
    by auto
next
  assume "\<exists>result. r = Inr result \<and> round_robin_run ar su B slice (started su) 0 tr result ps'"
  then obtain result where
    r: "r = Inr result" and
    rr: "round_robin_run ar su B slice (started su) 0 tr result ps'"
    by blast
  from uniform_loop_complete [OF rr, of "[]"] assms r
  show "UniformPortfolio_call ar su B = Some (r, ps', tr)"
    by (simp add: UniformPortfolio_call_def budget_each_of_def)
qed

subsection \<open>Evaluation in binary64\<close>

lemma binary64_sel [simp]:
  "f_add binary64 = d_add" "f_sub binary64 = d_sub" "f_int_mul binary64 = d_int_mul"
  "f_div binary64 = d_div" "f_div_int binary64 = d_div_int" "f_less binary64 = d_less"
  "f_le binary64 = d_le" "f_ceil_int binary64 = d_ceil_int" "f_zero binary64 = Finite 0"
  "f_neg_tenth binary64 = Finite (- round64 (1 / 10))"
  by (simp_all add: binary64_def)

lemma exponent_tenth: "exponent (1 / 10) = - 4"
proof -
  have "\<lfloor>log 2 (1 / 10 :: real)\<rfloor> = - 4"
    by (subst floor_log_eq_powr_iff) (simp_all add: powr_minus powr_numeral)
  then show ?thesis by (simp add: exponent_def)
qed

lemma round64_tenth: "round64 (1 / 10) = 3602879701896397 / 36028797018963968"
proof -
  have q: "quantum (1 / 10) = 1 / 72057594037927936"
    by (simp add: quantum_def exponent_tenth powr_minus powr_numeral)
  have "round_half_even (1 / 10 / (1 / 72057594037927936)) = 7205759403792794"
    by (simp add: round_half_even_def Let_def)
  then show ?thesis
    by (simp add: round64_def q)
qed

lemma d_int_mul_small:
  "\<bar>n\<bar> < 2 ^ 53 \<Longrightarrow> d_int_mul n (Finite x) = Inr (to_double (of_int n * x))"
  by (simp add: d_int_mul_def d_of_int_small)

lemma d_div_int_small:
  "\<bar>n\<bar> < 2 ^ 53 \<Longrightarrow> n \<noteq> 0 \<Longrightarrow> d_div_int (Finite x) n = Inr (to_double (x / of_int n))"
  by (simp add: d_div_int_def d_of_int_small)

subsection \<open>The scenarios\<close>

lemmas pm_loop_numeral =
  pm_loop.simps(2) [where k = "pred_numeral n", folded numeral_eq_Suc] for n

lemma learning_run:
  "PureModelPortfolio_call binary64
     (PureModelPortfolio_init (example_model (Finite 10)) False learning_planner)
     example_externals ''task'' example_suite (Finite 30) (Finite 0) =
    (Inr (Some True),
     \<lparr>st_plan = [], st_failures = [(0, 0)],
      st_model = \<lparr>interval = Finite 10, log_survival = [], log_weights = [(0, 0)]\<rparr>,
      st_world = Finite 30\<rparr>,
     [Planned [] (Finite 30) [(0, 0)],
      Ran \<lparr>inv_solver = 0, inv_bin = 0, inv_interval = Finite 10, inv_remaining = Finite 30,
           inv_duration = Finite 10, inv_answer = None\<rparr>,
      Planned [(0, 0)] (Finite 20) [(1, 1)],
      Ran \<lparr>inv_solver = 1, inv_bin = 1, inv_interval = Finite 10, inv_remaining = Finite 20,
           inv_duration = Finite 20, inv_answer = Some True\<rparr>])"
  by (auto simp add: PureModelPortfolio_call_def PureModelPortfolio_init_def learning_planner_def
      example_externals_def example_suite_def example_model_def initial_model_of_def
      replan_if_empty_def derive_plan_def Let_def pm_loop_numeral py_min_def
      d_sub_def d_int_mul_small slice_last_axis_def)

lemma two_step_run:
  "PureModelPortfolio_call binary64
     (PureModelPortfolio_init (example_model (Finite 10)) False two_step_planner)
     example_externals ''task'' example_suite (Finite 30) (Finite 0) =
    (Inr (Some True),
     \<lparr>st_plan = [], st_failures = [(0, 0)],
      st_model = \<lparr>interval = Finite 10, log_survival = [], log_weights = []\<rparr>,
      st_world = Finite 20\<rparr>,
     [Planned [] (Finite 30) [(0, 0), (1, 0)],
      Ran \<lparr>inv_solver = 0, inv_bin = 0, inv_interval = Finite 10, inv_remaining = Finite 30,
           inv_duration = Finite 10, inv_answer = None\<rparr>,
      Ran \<lparr>inv_solver = 1, inv_bin = 0, inv_interval = Finite 10, inv_remaining = Finite 20,
           inv_duration = Finite 10, inv_answer = Some True\<rparr>])"
  by (auto simp add: PureModelPortfolio_call_def PureModelPortfolio_init_def two_step_planner_def
      example_externals_def example_suite_def example_model_def initial_model_of_def
      replan_if_empty_def derive_plan_def Let_def pm_loop_numeral py_min_def
      d_sub_def d_int_mul_small slice_last_axis_def)

lemma pm_loop_never_solved:
  assumes "st_plan st = []" "st_world st = Finite (of_int j)" "0 \<le> j" "j + int k \<le> 1000"
  shows "\<exists>st' tr.
           pm_loop binary64 (PureModelPortfolio_init (example_model (Finite 1)) False one_step_planner)
             example_externals example_suite (example_model (Finite 1)) (Finite 1000) k st
             = (Inr None, st', tr) \<and>
           length (invocations tr) = k \<and>
           list_all (\<lambda>i. \<not> domain_is_final example_suite (inv_answer i)) (invocations tr)"
  using assms
proof (induction k arbitrary: st j)
  case 0
  then show ?case by simp
next
  case (Suc k)
  let ?self = "PureModelPortfolio_init (example_model (Finite 1)) False one_step_planner"
  let ?m = "condition example_externals (example_model (Finite 1)) (st_failures st)"
  define now where "now = Finite (of_int j)"
  define left where "left = Finite (of_int (1000 - j))"
  define later where "later = Finite (of_int (j + 1))"
  let ?st1 = "st\<lparr>st_model := ?m, st_plan := [], st_world := later,
                  st_failures := st_failures st @ [(0, 0)]\<rparr>"
  have small: "\<bar>1000 - j\<bar> < 2 ^ 53" "\<bar>j + 1\<bar> < 2 ^ 53" "j < 1000"
    using Suc.prems(3,4) by simp_all
  have "st_plan ?st1 = []" "st_world ?st1 = Finite (of_int (j + 1))" "0 \<le> j + 1"
    "j + 1 + int k \<le> 1000"
    using Suc.prems by (simp_all add: later_def)
  from Suc.IH [OF this] obtain st' tr where
    run: "pm_loop binary64 ?self example_externals example_suite (example_model (Finite 1))
            (Finite 1000) k ?st1 = (Inr None, st', tr)"
    and n: "length (invocations tr) = k"
    and nf: "list_all (\<lambda>i. \<not> domain_is_final example_suite (inv_answer i)) (invocations tr)"
    by blast
  have world: "st_world st = now"
    by (simp add: now_def Suc.prems(2))
  have clock: "cpu_seconds example_externals now = now"
    "planning_time example_externals now = now"
    by (simp_all add: example_externals_def)
  have le: "\<not> d_le (Finite 1000) now"
    using small(3) by (simp add: now_def)
  have "d_sub (Finite 1000) now = to_double (of_int (1000 - j))"
    by (simp add: d_sub_def now_def)
  then have sub: "d_sub (Finite 1000) now = left"
    by (simp only: to_double_int [OF small(1)] left_def)
  have "d_div left (Finite 1) = Inr (to_double (of_int (1000 - j)))"
    by (simp add: left_def)
  then have div: "d_div left (Finite 1) = Inr left"
    by (simp only: to_double_int [OF small(1)] left_def)
  have ceil: "d_ceil_int left = Inr (1000 - j)"
    by (simp add: left_def)
  have itv: "interval ?m = Finite 1"
    by (simp add: example_externals_def example_model_def)
  have plan: "derive_plan binary64 ?self example_externals (example_model (Finite 1))
      (st_failures st) left = Inr [(0, 0)]"
    by (simp add: derive_plan_def Let_def itv div ceil one_step_planner_def
        PureModelPortfolio_init_def del: d_div.simps)
  have replan: "replan_if_empty binary64 ?self example_externals (example_model (Finite 1))
      (Finite 1000) now st =
        Inr (st\<lparr>st_model := ?m, st_plan := [(0, 0)], st_world := now\<rparr>,
             [Planned (st_failures st) left [(0, 0)]])"
    by (simp add: replan_if_empty_def Let_def Suc.prems(1) sub plan clock world)
  have mul: "d_int_mul 1 (Finite 1) = Inr (Finite 1)"
    by (simp add: d_int_mul_small)
  have "1 \<le> 1000 - j" using small(3) by simp
  then have min: "py_min binary64 left (Finite 1) = Finite 1"
    by (auto simp add: py_min_def left_def)
  have "d_add now (Finite 1) = to_double (of_int (j + 1))"
    by (simp add: now_def)
  then have add: "d_add now (Finite 1) = later"
    by (simp only: to_double_int [OF small(2)] later_def)
  have solver: "solvers example_suite ! 0 = (\<lambda>seconds w. (None, d_add w seconds))"
    "length (solvers example_suite) = 2" "\<not> domain_is_final example_suite None"
    by (simp_all add: example_suite_def)
  have "pm_loop binary64 ?self example_externals example_suite (example_model (Finite 1))
          (Finite 1000) (Suc k) st =
        (Inr None, st',
         [Planned (st_failures st) left [(0, 0)]] @
         Ran \<lparr>inv_solver = 0, inv_bin = 0, inv_interval = Finite 1,
              inv_remaining = left, inv_duration = Finite 1,
              inv_answer = None\<rparr> # tr)"
    by (simp add: Let_def world clock le replan sub itv mul min add solver run)
  then show ?case
    using n nf solver(3) by simp
qed

lemma preplanned_run:
  "PreplanningPortfolio_call binary64
     (PreplanningPortfolio_init (\<lambda>ls. [(0, 0), (1, 0)]) (example_model (Finite 10)))
     example_suite (Finite 30) (Finite 0) =
    (Inr (Some True), Finite 20,
     [Ran \<lparr>inv_solver = 0, inv_bin = 0, inv_interval = Finite 10, inv_remaining = Finite 30,
           inv_duration = Finite 10, inv_answer = None\<rparr>,
      Ran \<lparr>inv_solver = 1, inv_bin = 0, inv_interval = Finite 10, inv_remaining = Finite 20,
           inv_duration = Finite 10, inv_answer = Some True\<rparr>])"
  by (auto simp add: PreplanningPortfolio_call_def PreplanningPortfolio_init_def
      example_suite_def example_model_def Let_def d_sub_def d_int_mul_small round64_tenth)

lemma oracle_run:
  "OraclePortfolio_call binary64 (\<lambda>counts. Inr [[], []]) (\<lambda>ls. [(0, 0), (1, 0)])
     (example_data (Finite 1000)) example_suite (Finite 30) (Finite 0) =
    (Inr (Some True), Finite 20,
     [Ran \<lparr>inv_solver = 0, inv_bin = 0, inv_interval = Finite 10, inv_remaining = Finite 30,
           inv_duration = Finite 10, inv_answer = None\<rparr>,
      Ran \<lparr>inv_solver = 1, inv_bin = 0, inv_interval = Finite 10, inv_remaining = Finite 20,
           inv_duration = Finite 10, inv_answer = Some True\<rparr>])"
  by (auto simp add: OraclePortfolio_call_def Oracle_plan_def Oracle_interval_def budget_count_def
      example_data_def example_suite_def Let_def d_sub_def d_int_mul_small d_div_int_small
      round64_tenth)

lemma to_double_sixteenths:
  "to_double (17 / 16) = Finite (17 / 16)" "to_double (- (1 / 16)) = Finite (- (1 / 16))"
  using to_double_dyadic [of 17 4] to_double_dyadic [of "- 1" 4] by simp_all

lemma overrunning_run:
  "PreplanningPortfolio_call binary64
     (PreplanningPortfolio_init (\<lambda>ls. [(0, 0)]) (example_model (Finite (17 / 16))))
     example_suite (Finite 1) (Finite 0) =
    (Inr None, Finite (17 / 16),
     [Ran \<lparr>inv_solver = 0, inv_bin = 0, inv_interval = Finite (17 / 16),
           inv_remaining = Finite 1, inv_duration = Finite (17 / 16), inv_answer = None\<rparr>])"
  by (auto simp add: PreplanningPortfolio_call_def PreplanningPortfolio_init_def
      example_suite_def example_model_def Let_def d_sub_def d_int_mul_small round64_tenth
      to_double_sixteenths)

text \<open>
  C5. A PureModelPortfolio (built by \<open>__init__\<close>, which sets the limit of runs to 256)
  issues at most 256 bounded invocations in a call; and when it has issued 256 and none
  of their answers was final, the call returns None: it raises no error.
\<close>

theorem runs_limit_circuit_breaker:
  "length (invocations (trace_of
      (PureModelPortfolio_call ar (PureModelPortfolio_init m regress planner) ext tsk su
         budget_cpu_seconds w))) \<le> 256 \<and>
   (length (invocations (trace_of
      (PureModelPortfolio_call ar (PureModelPortfolio_init m regress planner) ext tsk su
         budget_cpu_seconds w))) = 256 \<and>
    list_all (\<lambda>i. \<not> domain_is_final su (inv_answer i))
      (invocations (trace_of
        (PureModelPortfolio_call ar (PureModelPortfolio_init m regress planner) ext tsk su
           budget_cpu_seconds w)))
    \<longrightarrow> outcome (PureModelPortfolio_call ar (PureModelPortfolio_init m regress planner) ext tsk su
           budget_cpu_seconds w) = Inr None)"
proof -
  let ?self = "PureModelPortfolio_init m regress planner"
  obtain r st' tr where
    run: "PureModelPortfolio_call ar ?self ext tsk su budget_cpu_seconds w = (r, st', tr)"
    by (cases "PureModelPortfolio_call ar ?self ext tsk su budget_cpu_seconds w")
  have limit: "pm_runs_limit ?self = 256"
    by (simp add: PureModelPortfolio_init_def)
  from run have "\<exists>st0. pm_loop ar ?self ext su (initial_model_of ?self ext tsk)
      budget_cpu_seconds 256 st0 = (r, st', tr)"
    unfolding PureModelPortfolio_call_def Let_def limit by blast
  then obtain st0 where
    "pm_loop ar ?self ext su (initial_model_of ?self ext tsk) budget_cpu_seconds 256 st0
       = (r, st', tr)" ..
  from pm_loop_invocations [OF this] show ?thesis
    by (simp add: run outcome_def trace_of_def)
qed

theorem runs_limit_circuit_breaker_witness:
  "length (invocations (trace_of
      (PureModelPortfolio_call binary64
         (PureModelPortfolio_init (example_model (Finite 1)) False one_step_planner)
         example_externals ''task'' example_suite (Finite 1000) (Finite 0)))) = 256 \<and>
   list_all (\<lambda>i. \<not> domain_is_final example_suite (inv_answer i))
      (invocations (trace_of
        (PureModelPortfolio_call binary64
           (PureModelPortfolio_init (example_model (Finite 1)) False one_step_planner)
           example_externals ''task'' example_suite (Finite 1000) (Finite 0)))) \<and>
   outcome (PureModelPortfolio_call binary64
           (PureModelPortfolio_init (example_model (Finite 1)) False one_step_planner)
           example_externals ''task'' example_suite (Finite 1000) (Finite 0)) = Inr None"
proof -
  let ?self = "PureModelPortfolio_init (example_model (Finite 1)) False one_step_planner"
  let ?st0 = "\<lparr>st_plan = [], st_failures = [], st_model = example_model (Finite 1),
               st_world = Finite 0\<rparr>"
  have "st_plan ?st0 = []" "st_world ?st0 = Finite (of_int 0)" "(0 :: int) \<le> 0"
    "0 + int 256 \<le> 1000"
    by simp_all
  from pm_loop_never_solved [OF this] obtain st' tr where
    run: "pm_loop binary64 ?self example_externals example_suite (example_model (Finite 1))
            (Finite 1000) 256 ?st0 = (Inr None, st', tr)"
    and n: "length (invocations tr) = 256"
    and nf: "list_all (\<lambda>i. \<not> domain_is_final example_suite (inv_answer i)) (invocations tr)"
    by blast
  have call: "PureModelPortfolio_call binary64 ?self
      example_externals ''task'' example_suite (Finite 1000) (Finite 0) = (Inr None, st', tr)"
    using run
    by (simp add: PureModelPortfolio_call_def initial_model_of_def PureModelPortfolio_init_def)
  from runs_limit_circuit_breaker
         [of binary64 "example_model (Finite 1)" False one_step_planner example_externals
             "''task''" example_suite "Finite 1000" "Finite 0"]
  show ?thesis
    using n nf by (simp add: call trace_of_def outcome_def)
qed

text \<open>
  C1, as the code has it. In a call of PureModelPortfolio, the pair \<open>(solver, bin)\<close> of
  every bounded invocation whose answer is not final is appended to the failures. A new
  plan is derived exactly when the loop goes on (one of the 256 iterations is left and
  the CPU time elapsed is below the budget) with the current plan exhausted: at the
  first iteration and whenever the last step of a plan has failed. It is derived from
  \<open>initial_model.condition(failures)\<close> with all the failures so far, restricted to
  the budget less the CPU time elapsed then, and its first step is issued next. The
  other steps of a plan of several steps are issued under that plan, with no planning
  after the failure of the step before. The failures at the end of the call are the
  failed steps of the trace.
\<close>

theorem replans_when_plan_exhausted:
  "replanning_run ar planner ext su
     (initial_model_of (PureModelPortfolio_init m regress planner) ext tsk) budget_cpu_seconds
     False 256 [] []
     (initial_model_of (PureModelPortfolio_init m regress planner) ext tsk)
     (if regress then feature_time ext w else w)
     (trace_of (PureModelPortfolio_call ar (PureModelPortfolio_init m regress planner) ext tsk su
        budget_cpu_seconds w))
     (outcome (PureModelPortfolio_call ar (PureModelPortfolio_init m regress planner) ext tsk su
        budget_cpu_seconds w)) \<and>
   st_failures (fst (snd (PureModelPortfolio_call ar (PureModelPortfolio_init m regress planner)
      ext tsk su budget_cpu_seconds w))) =
     failed_steps (domain_is_final su)
       (trace_of (PureModelPortfolio_call ar (PureModelPortfolio_init m regress planner) ext tsk su
          budget_cpu_seconds w))"
proof -
  let ?self = "PureModelPortfolio_init m regress planner"
  let ?im = "initial_model_of ?self ext tsk"
  let ?st0 = "\<lparr>st_plan = [], st_failures = [], st_model = ?im,
               st_world = (if regress then feature_time ext w else w)\<rparr>"
  obtain r st' tr where
    run: "PureModelPortfolio_call ar ?self ext tsk su budget_cpu_seconds w = (r, st', tr)"
    by (cases "PureModelPortfolio_call ar ?self ext tsk su budget_cpu_seconds w")
  have sel: "pm_runs_limit ?self = 256" "pm_regress ?self = regress" "pm_planner ?self = planner"
    by (simp_all add: PureModelPortfolio_init_def)
  from run have loop: "pm_loop ar ?self ext su ?im budget_cpu_seconds 256 ?st0 = (r, st', tr)"
    unfolding PureModelPortfolio_call_def Let_def sel by simp
  from pm_loop_replanning_run [OF loop] pm_loop_failures [OF loop] show ?thesis
    by (simp add: run outcome_def trace_of_def sel)
qed

text \<open>
  The claim as the specification words it fails: with a planner that gives the two
  steps \<open>(0, 0)\<close>, \<open>(1, 0)\<close> and a first step that fails, the second invocation is
  issued under the plan derived before the failure.
\<close>

theorem replan_after_every_failure_counterexample:
  "trace_of (PureModelPortfolio_call binary64
       (PureModelPortfolio_init (example_model (Finite 10)) False two_step_planner)
       example_externals ''task'' example_suite (Finite 30) (Finite 0)) =
     [Planned [] (Finite 30) [(0, 0), (1, 0)],
      Ran \<lparr>inv_solver = 0, inv_bin = 0, inv_interval = Finite 10, inv_remaining = Finite 30,
           inv_duration = Finite 10, inv_answer = None\<rparr>,
      Ran \<lparr>inv_solver = 1, inv_bin = 0, inv_interval = Finite 10, inv_remaining = Finite 20,
           inv_duration = Finite 10, inv_answer = Some True\<rparr>] \<and>
   \<not> conditioned_on_all_failures (domain_is_final example_suite) [] False
       (trace_of (PureModelPortfolio_call binary64
          (PureModelPortfolio_init (example_model (Finite 10)) False two_step_planner)
          example_externals ''task'' example_suite (Finite 30) (Finite 0)))"
  unfolding two_step_run trace_of_def
  by (simp add: example_suite_def)

theorem replans_when_plan_exhausted_witness:
  "trace_of (PureModelPortfolio_call binary64
       (PureModelPortfolio_init (example_model (Finite 10)) False learning_planner)
       example_externals ''task'' example_suite (Finite 30) (Finite 0)) =
     [Planned [] (Finite 30) [(0, 0)],
      Ran \<lparr>inv_solver = 0, inv_bin = 0, inv_interval = Finite 10, inv_remaining = Finite 30,
           inv_duration = Finite 10, inv_answer = None\<rparr>,
      Planned [(0, 0)] (Finite 20) [(1, 1)],
      Ran \<lparr>inv_solver = 1, inv_bin = 1, inv_interval = Finite 10, inv_remaining = Finite 20,
           inv_duration = Finite 20, inv_answer = Some True\<rparr>] \<and>
   replanning_run binary64 learning_planner example_externals example_suite
     (example_model (Finite 10)) (Finite 30) False 256 [] [] (example_model (Finite 10)) (Finite 0)
     [Planned [] (Finite 30) [(0, 0)],
      Ran \<lparr>inv_solver = 0, inv_bin = 0, inv_interval = Finite 10, inv_remaining = Finite 30,
           inv_duration = Finite 10, inv_answer = None\<rparr>,
      Planned [(0, 0)] (Finite 20) [(1, 1)],
      Ran \<lparr>inv_solver = 1, inv_bin = 1, inv_interval = Finite 10, inv_remaining = Finite 20,
           inv_duration = Finite 20, inv_answer = Some True\<rparr>]
     (Inr (Some True)) \<and>
   st_failures (fst (snd (PureModelPortfolio_call binary64
       (PureModelPortfolio_init (example_model (Finite 10)) False learning_planner)
       example_externals ''task'' example_suite (Finite 30) (Finite 0)))) = [(0, 0)]"
  using replans_when_plan_exhausted
          [of binary64 learning_planner example_externals example_suite
              "example_model (Finite 10)" False "''task''" "Finite 30" "Finite 0"]
  unfolding learning_run trace_of_def outcome_def initial_model_of_def
  by (simp add: PureModelPortfolio_init_def failed_steps_def example_suite_def
      del: replanning_run.simps)

text \<open>
  C4, as the code has it. For every plan step \<open>(s, b)\<close> that PureModelPortfolio
  executes, solver \<open>s\<close> of the suite is run for exactly the lesser of the remaining
  budget and \<open>(b + 1) * interval\<close>, with the interval of the current model, where
  the remaining budget is the episode budget less the CPU time elapsed at that point.
  For every plan step that PreplanningPortfolio or OraclePortfolio executes, solver
  \<open>s\<close> is run for exactly the whole \<open>(b + 1) * interval\<close> (the interval of the
  model, and the common budget of the run data over 100), which the assertion keeps less
  than 0.1 seconds above the remaining budget, where the remaining budget is the
  episode budget less the durations allotted to the steps before.
\<close>

theorem duration_of_each_invocation:
  "replanning_run ar planner ext su
     (initial_model_of (PureModelPortfolio_init m regress planner) ext tsk) budget_cpu_seconds
     False 256 [] []
     (initial_model_of (PureModelPortfolio_init m regress planner) ext tsk)
     (if regress then feature_time ext w else w)
     (trace_of (PureModelPortfolio_call ar (PureModelPortfolio_init m regress planner) ext tsk su
        budget_cpu_seconds w))
     (outcome (PureModelPortfolio_call ar (PureModelPortfolio_init m regress planner) ext tsk su
        budget_cpu_seconds w)) \<and>
   list_all (runs_min_duration ar)
     (invocations (trace_of (PureModelPortfolio_call ar (PureModelPortfolio_init m regress planner)
        ext tsk su budget_cpu_seconds w))) \<and>
   fixed_plan_run ar su (interval pm) (pre_planner (slice_last_axis (- 1) (log_survival pm)))
     budget_cpu_seconds w
     (trace_of (PreplanningPortfolio_call ar (PreplanningPortfolio_init pre_planner pm) su
        budget_cpu_seconds w))
     (outcome (PreplanningPortfolio_call ar (PreplanningPortfolio_init pre_planner pm) su
        budget_cpu_seconds w)) \<and>
   (case curves (bins_array data) of
      Inl e \<Rightarrow>
        outcome (OraclePortfolio_call ar curves oracle_planner data su budget_cpu_seconds w) = Inl e \<and>
        trace_of (OraclePortfolio_call ar curves oracle_planner data su budget_cpu_seconds w) = []
    | Inr ls \<Rightarrow>
        (case f_div_int ar (common_budget data) 100 of
           Inl e \<Rightarrow>
             outcome (OraclePortfolio_call ar curves oracle_planner data su budget_cpu_seconds w)
               = Inl e \<and>
             trace_of (OraclePortfolio_call ar curves oracle_planner data su budget_cpu_seconds w)
               = []
         | Inr itv \<Rightarrow>
             fixed_plan_run ar su itv (oracle_planner [ls]) budget_cpu_seconds w
               (trace_of (OraclePortfolio_call ar curves oracle_planner data su
                  budget_cpu_seconds w))
               (outcome (OraclePortfolio_call ar curves oracle_planner data su
                  budget_cpu_seconds w))))"
proof -
  let ?self = "PureModelPortfolio_init m regress planner"
  let ?im = "initial_model_of ?self ext tsk"
  let ?st0 = "\<lparr>st_plan = [], st_failures = [], st_model = ?im,
               st_world = (if regress then feature_time ext w else w)\<rparr>"
  obtain r st' tr where
    run: "PureModelPortfolio_call ar ?self ext tsk su budget_cpu_seconds w = (r, st', tr)"
    by (cases "PureModelPortfolio_call ar ?self ext tsk su budget_cpu_seconds w")
  have sel: "pm_runs_limit ?self = 256" "pm_regress ?self = regress" "pm_planner ?self = planner"
    by (simp_all add: PureModelPortfolio_init_def)
  from run have loop: "pm_loop ar ?self ext su ?im budget_cpu_seconds 256 ?st0 = (r, st', tr)"
    unfolding PureModelPortfolio_call_def Let_def sel by simp
  from pm_loop_replanning_run [OF loop] pm_loop_min_duration [OF loop]
  have pure: "replanning_run ar planner ext su ?im budget_cpu_seconds False 256 [] [] ?im
      (if regress then feature_time ext w else w)
      (trace_of (PureModelPortfolio_call ar ?self ext tsk su budget_cpu_seconds w))
      (outcome (PureModelPortfolio_call ar ?self ext tsk su budget_cpu_seconds w))"
    "list_all (runs_min_duration ar)
      (invocations (trace_of (PureModelPortfolio_call ar ?self ext tsk su budget_cpu_seconds w)))"
    by (simp_all add: run outcome_def trace_of_def sel)
  let ?pre = "PreplanningPortfolio_call ar (PreplanningPortfolio_init pre_planner pm) su
      budget_cpu_seconds w"
  obtain r1 w1 tr1 where pre_run: "?pre = (r1, w1, tr1)"
    by (cases ?pre)
  then have "follow_through ar su (interval pm)
      (pre_planner (slice_last_axis (- 1) (log_survival pm))) budget_cpu_seconds w = (r1, w1, tr1)"
    by (simp add: PreplanningPortfolio_call_def PreplanningPortfolio_init_def)
  from follow_through_fixed_plan_run [OF this]
  have pre: "fixed_plan_run ar su (interval pm)
      (pre_planner (slice_last_axis (- 1) (log_survival pm))) budget_cpu_seconds w
      (trace_of ?pre) (outcome ?pre)"
    by (simp add: pre_run outcome_def trace_of_def)
  let ?orc = "OraclePortfolio_call ar curves oracle_planner data su budget_cpu_seconds w"
  have orc: "(case curves (bins_array data) of
      Inl e \<Rightarrow> outcome ?orc = Inl e \<and> trace_of ?orc = []
    | Inr ls \<Rightarrow>
        (case f_div_int ar (common_budget data) 100 of
           Inl e \<Rightarrow> outcome ?orc = Inl e \<and> trace_of ?orc = []
         | Inr itv \<Rightarrow>
             fixed_plan_run ar su itv (oracle_planner [ls]) budget_cpu_seconds w
               (trace_of ?orc) (outcome ?orc)))"
  proof (cases "curves (bins_array data)")
    case (Inl e)
    then show ?thesis
      by (simp add: OraclePortfolio_call_def Oracle_plan_def outcome_def trace_of_def)
  next
    case curves: (Inr ls)
    show ?thesis
    proof (cases "f_div_int ar (common_budget data) 100")
      case (Inl e)
      with curves show ?thesis
        by (simp add: OraclePortfolio_call_def Oracle_plan_def Oracle_interval_def
            budget_count_def outcome_def trace_of_def)
    next
      case (Inr itv)
      obtain r2 w2 tr2 where
        ft: "follow_through ar su itv (oracle_planner [ls]) budget_cpu_seconds w = (r2, w2, tr2)"
        by (cases "follow_through ar su itv (oracle_planner [ls]) budget_cpu_seconds w")
      with curves Inr have "?orc = (r2, w2, tr2)"
        by (simp add: OraclePortfolio_call_def Oracle_plan_def Oracle_interval_def
            budget_count_def)
      with follow_through_fixed_plan_run [OF ft] curves Inr show ?thesis
        by (simp add: outcome_def trace_of_def)
    qed
  qed
  from pure pre orc show ?thesis
    by (intro conjI)
qed

text \<open>
  The claim as the specification words it fails for the portfolios that follow a fixed
  plan: under a budget of 1 second and an interval of 17/16 seconds, the step
  \<open>(0, 0)\<close> of PreplanningPortfolio passes the assertion (\<open>1 - 17/16 > -0.1\<close>)
  and runs for 17/16 seconds, not for the lesser of 1 and 17/16.
\<close>

theorem min_duration_counterexample:
  "trace_of (PreplanningPortfolio_call binary64
       (PreplanningPortfolio_init (\<lambda>ls. [(0, 0)]) (example_model (Finite (17 / 16))))
       example_suite (Finite 1) (Finite 0)) =
     [Ran \<lparr>inv_solver = 0, inv_bin = 0, inv_interval = Finite (17 / 16),
           inv_remaining = Finite 1, inv_duration = Finite (17 / 16), inv_answer = None\<rparr>] \<and>
   \<not> list_all (runs_min_duration binary64)
       (invocations (trace_of (PreplanningPortfolio_call binary64
          (PreplanningPortfolio_init (\<lambda>ls. [(0, 0)]) (example_model (Finite (17 / 16))))
          example_suite (Finite 1) (Finite 0))))"
  unfolding overrunning_run trace_of_def
  by (simp add: runs_min_duration_def d_int_mul_small to_double_sixteenths)

theorem duration_of_each_invocation_witness:
  "replanning_run binary64 learning_planner example_externals example_suite
     (example_model (Finite 10)) (Finite 30) False 256 [] [] (example_model (Finite 10)) (Finite 0)
     [Planned [] (Finite 30) [(0, 0)],
      Ran \<lparr>inv_solver = 0, inv_bin = 0, inv_interval = Finite 10, inv_remaining = Finite 30,
           inv_duration = Finite 10, inv_answer = None\<rparr>,
      Planned [(0, 0)] (Finite 20) [(1, 1)],
      Ran \<lparr>inv_solver = 1, inv_bin = 1, inv_interval = Finite 10, inv_remaining = Finite 20,
           inv_duration = Finite 20, inv_answer = Some True\<rparr>]
     (Inr (Some True)) \<and>
   fixed_plan_run binary64 example_suite (Finite 10) [(0, 0), (1, 0)] (Finite 30) (Finite 0)
     [Ran \<lparr>inv_solver = 0, inv_bin = 0, inv_interval = Finite 10, inv_remaining = Finite 30,
           inv_duration = Finite 10, inv_answer = None\<rparr>,
      Ran \<lparr>inv_solver = 1, inv_bin = 0, inv_interval = Finite 10, inv_remaining = Finite 20,
           inv_duration = Finite 10, inv_answer = Some True\<rparr>]
     (Inr (Some True)) \<and>
   trace_of (PreplanningPortfolio_call binary64
       (PreplanningPortfolio_init (\<lambda>ls. [(0, 0), (1, 0)]) (example_model (Finite 10)))
       example_suite (Finite 30) (Finite 0)) =
     [Ran \<lparr>inv_solver = 0, inv_bin = 0, inv_interval = Finite 10, inv_remaining = Finite 30,
           inv_duration = Finite 10, inv_answer = None\<rparr>,
      Ran \<lparr>inv_solver = 1, inv_bin = 0, inv_interval = Finite 10, inv_remaining = Finite 20,
           inv_duration = Finite 10, inv_answer = Some True\<rparr>] \<and>
   trace_of (OraclePortfolio_call binary64 (\<lambda>counts. Inr [[], []]) (\<lambda>ls. [(0, 0), (1, 0)])
       (example_data (Finite 1000)) example_suite (Finite 30) (Finite 0)) =
     [Ran \<lparr>inv_solver = 0, inv_bin = 0, inv_interval = Finite 10, inv_remaining = Finite 30,
           inv_duration = Finite 10, inv_answer = None\<rparr>,
      Ran \<lparr>inv_solver = 1, inv_bin = 0, inv_interval = Finite 10, inv_remaining = Finite 20,
           inv_duration = Finite 10, inv_answer = Some True\<rparr>]"
  using duration_of_each_invocation
          [where ar = binary64 and planner = learning_planner and ext = example_externals
             and su = example_suite and m = "example_model (Finite 10)" and regress = False
             and tsk = "''task''" and budget_cpu_seconds = "Finite 30" and w = "Finite 0"
             and pm = "example_model (Finite 10)" and pre_planner = "\<lambda>ls. [(0, 0), (1, 0)]"
             and curves = "\<lambda>counts. Inr [[], []]" and data = "example_data (Finite 1000)"
             and oracle_planner = "\<lambda>ls. [(0, 0), (1, 0)]"]
  unfolding learning_run preplanned_run oracle_run trace_of_def outcome_def initial_model_of_def
  by (simp add: PureModelPortfolio_init_def example_model_def
      del: replanning_run.simps fixed_plan_run.simps)

text \<open>
  C8. UniformPortfolio with 2 solvers and a budget of 200 CPU seconds gives every step a
  slice of \<open>200 / (2 * 100) = 1\<close> CPU second, and its call returns exactly when its turns
  are a round robin with that slice: the turns take the processes in a cycle, skip those
  that have terminated and run the others for one slice each; the first answer that the
  domain reports final ends the turns and is returned; without one, the turns go on
  until the unspent budget is below one slice or all processes have terminated, and
  None is returned then.
\<close>

theorem uniform_two_solvers_round_robin:
  assumes "length (started su) = 2"
  shows "f_div_int binary64 (Finite 200) (int (length (started su)) * 100) = Inr (Finite 1) \<and>
         (UniformPortfolio_call binary64 su (Finite 200) = Some (r, ps', tr) \<longleftrightarrow>
            (\<exists>result. r = Inr result \<and>
               round_robin_run binary64 su (Finite 200) (Finite 1) (started su) 0 tr result ps'))"
proof -
  have slice: "f_div_int binary64 (Finite 200) (int (length (started su)) * 100) = Inr (Finite 1)"
    using assms by (simp add: d_div_int_small)
  from slice UniformPortfolio_call_iff [OF slice] show ?thesis
    by blast
qed

lemma crashing_and_slow_turns:
  "round_robin_run binary64 (example_uniform_suite crashing_and_slow) (Finite 200) (Finite 1)
     crashing_and_slow 0
     [Slice 0 (Finite 1) None, Slice 1 (Finite 1) None, Skipped 0, Slice 1 (Finite 1) None,
      Skipped 0, Slice 1 (Finite 1) (Some True)]
     (Some True)
     [\<lparr>used = Finite 1, has_terminated = True, needs = Finite 1, crashes = True,
       overrun = Finite 0\<rparr>,
      \<lparr>used = Finite 3, has_terminated = True, needs = Finite 3, crashes = False,
       overrun = Finite 0\<rparr>]"
  by (auto simp add: example_uniform_suite_def crashing_and_slow_def stops_def unspent_def
      example_run_then_pause_def d_sub_def mod_Suc)

lemma both_crashing_turns:
  "round_robin_run binary64 (example_uniform_suite both_crashing) (Finite 200) (Finite 1)
     both_crashing 0
     [Slice 0 (Finite 1) None, Slice 1 (Finite 1) None]
     None
     [\<lparr>used = Finite 1, has_terminated = True, needs = Finite 1, crashes = True,
       overrun = Finite 0\<rparr>,
      \<lparr>used = Finite 1, has_terminated = True, needs = Finite 1, crashes = True,
       overrun = Finite 0\<rparr>]"
  by (auto simp add: example_uniform_suite_def both_crashing_def stops_def unspent_def
      example_run_then_pause_def d_sub_def mod_Suc)

lemma both_overrunning_turns:
  "round_robin_run binary64 (example_uniform_suite both_overrunning) (Finite 200) (Finite 1)
     both_overrunning 0
     [Slice 0 (Finite 1) None, Slice 1 (Finite 1) None]
     None
     [\<lparr>used = Finite 120, has_terminated = False, needs = Finite 1000, crashes = False,
       overrun = Finite 119\<rparr>,
      \<lparr>used = Finite 120, has_terminated = False, needs = Finite 1000, crashes = False,
       overrun = Finite 119\<rparr>]"
  by (auto simp add: example_uniform_suite_def both_overrunning_def stops_def unspent_def
      example_run_then_pause_def d_sub_def mod_Suc)

theorem uniform_two_solvers_round_robin_witness:
  "length (started (example_uniform_suite crashing_and_slow)) = 2 \<and>
   UniformPortfolio_call binary64 (example_uniform_suite crashing_and_slow) (Finite 200) =
     Some (Inr (Some True),
       [\<lparr>used = Finite 1, has_terminated = True, needs = Finite 1, crashes = True,
         overrun = Finite 0\<rparr>,
        \<lparr>used = Finite 3, has_terminated = True, needs = Finite 3, crashes = False,
         overrun = Finite 0\<rparr>],
       [Slice 0 (Finite 1) None, Slice 1 (Finite 1) None, Skipped 0, Slice 1 (Finite 1) None,
        Skipped 0, Slice 1 (Finite 1) (Some True)]) \<and>
   length (started (example_uniform_suite both_crashing)) = 2 \<and>
   UniformPortfolio_call binary64 (example_uniform_suite both_crashing) (Finite 200) =
     Some (Inr None,
       [\<lparr>used = Finite 1, has_terminated = True, needs = Finite 1, crashes = True,
         overrun = Finite 0\<rparr>,
        \<lparr>used = Finite 1, has_terminated = True, needs = Finite 1, crashes = True,
         overrun = Finite 0\<rparr>],
       [Slice 0 (Finite 1) None, Slice 1 (Finite 1) None]) \<and>
   length (started (example_uniform_suite both_overrunning)) = 2 \<and>
   UniformPortfolio_call binary64 (example_uniform_suite both_overrunning) (Finite 200) =
     Some (Inr None,
       [\<lparr>used = Finite 120, has_terminated = False, needs = Finite 1000, crashes = False,
         overrun = Finite 119\<rparr>,
        \<lparr>used = Finite 120, has_terminated = False, needs = Finite 1000, crashes = False,
         overrun = Finite 119\<rparr>],
       [Slice 0 (Finite 1) None, Slice 1 (Finite 1) None])"
proof -
  have st: "started (example_uniform_suite ps) = ps" for ps
    by (simp add: example_uniform_suite_def)
  have n: "length (started (example_uniform_suite crashing_and_slow)) = 2"
    "length (started (example_uniform_suite both_crashing)) = 2"
    "length (started (example_uniform_suite both_overrunning)) = 2"
    unfolding st by (simp_all add: crashing_and_slow_def both_crashing_def both_overrunning_def)
  from uniform_two_solvers_round_robin [OF n(1)] crashing_and_slow_turns
       uniform_two_solvers_round_robin [OF n(2)] both_crashing_turns
       uniform_two_solvers_round_robin [OF n(3)] both_overrunning_turns
       n
  show ?thesis
    unfolding st by blast
qed


end
